theory Spec2Isabelle
  imports Complex_Main "HOL-Library.AList"
begin

section \<open>Apple Health data processor: extraction, aggregation and merge\<close>

text \<open>
  A shallow embedding of \<^verbatim>\<open>process_health_data.py\<close>. Conventions of the model:
  \<^item> a Python \<^verbatim>\<open>float\<close> is an exact rational; \<^verbatim>\<open>round(x, n)\<close> rounds the exact value
    half-to-even at \<open>n\<close> decimals. Non-finite floats are outside the model;
  \<^item> a naive \<^verbatim>\<open>datetime\<close> is the number of microseconds since 0001-01-01 00:00:00, a
    \<^verbatim>\<open>date\<close> is its proleptic Gregorian ordinal (\<^verbatim>\<open>toordinal()\<close>), so comparison and
    subtraction are those of the integers;
  \<^item> an exception is a value \<open>Inl e\<close> of a sum type; a function that cannot raise returns
    its result directly;
  \<^item> a \<^verbatim>\<open>dict\<close> is an association list in insertion order with distinct keys.
\<close>

subsection \<open>Exceptions, numbers and time\<close>

datatype error = OverflowError | TypeError | ValueError | AttributeError | KeyError

type_synonym datetime = int

type_synonym date = int

type_synonym timestamp_text = int

definition us_per_second :: int where
  "us_per_second = 1000000"

definition us_per_day :: int where
  "us_per_day = 86400 * us_per_second"

definition MAXORDINAL :: int where
  "MAXORDINAL = 3652059"

definition round_half_even :: "rat \<Rightarrow> int" where
  "round_half_even x =
     (let f = \<lfloor>x\<rfloor>; r = x - of_int f
      in if r < 1 / 2 then f else if 1 / 2 < r then f + 1 else if even f then f else f + 1)"

definition py_round :: "rat \<Rightarrow> nat \<Rightarrow> rat" where
  \<comment> \<open>\<^verbatim>\<open>round(x, n)\<close>\<close>
  "py_round x n = of_int (round_half_even (x * 10 ^ n)) / 10 ^ n"

definition date_of :: "datetime \<Rightarrow> date" where
  \<comment> \<open>\<^verbatim>\<open>dt.date()\<close>\<close>
  "date_of dt = dt div us_per_day + 1"

definition timedelta_days :: "int \<Rightarrow> error + int" where
  \<comment> \<open>\<^verbatim>\<open>timedelta(days=n)\<close>, in microseconds; the constructor refuses more than 999999999 days\<close>
  "timedelta_days n =
     (if \<bar>n\<bar> \<le> 999999999 then Inr (n * us_per_day) else Inl OverflowError)"

definition datetime_sub :: "datetime \<Rightarrow> int \<Rightarrow> error + datetime" where
  \<comment> \<open>\<^verbatim>\<open>dt - td\<close>: the result must lie between year 1 and year 9999\<close>
  "datetime_sub dt td =
     (let r = dt - td
      in if 1 \<le> date_of r \<and> date_of r \<le> MAXORDINAL then Inr r else Inl OverflowError)"

definition cutoff_date :: "datetime \<Rightarrow> int \<Rightarrow> error + datetime" where
  \<comment> \<open>\<^verbatim>\<open>datetime.now() - timedelta(days=days_back)\<close>, \<open>now\<close> being the clock reading\<close>
  "cutoff_date now days_back =
     (case timedelta_days days_back of
        Inl e \<Rightarrow> Inl e
      | Inr td \<Rightarrow> datetime_sub now td)"

definition strftime_full :: "datetime \<Rightarrow> timestamp_text" where
  \<comment> \<open>\<^verbatim>\<open>dt.strftime('%Y-%m-%d %H:%M:%S')\<close>: the text names the instant to the whole second,
      and is held as that number of seconds\<close>
  "strftime_full dt = dt div us_per_second"

definition strptime_full :: "timestamp_text \<Rightarrow> datetime" where
  \<comment> \<open>\<^verbatim>\<open>datetime.strptime(s, '%Y-%m-%d %H:%M:%S')\<close> on a text written by \<open>strftime_full\<close>\<close>
  "strptime_full s = s * us_per_second"

definition two_digits :: "int \<Rightarrow> string" where
  "two_digits n = [''0123456789'' ! nat (n div 10), ''0123456789'' ! nat (n mod 10)]"

definition strftime_HM :: "datetime \<Rightarrow> string" where
  \<comment> \<open>\<^verbatim>\<open>dt.strftime('%H:%M')\<close>\<close>
  "strftime_HM dt =
     (let s = (dt div us_per_second) mod 86400
      in two_digits (s div 3600) @ '':'' @ two_digits ((s div 60) mod 60))"

text \<open>
  Calendar dates for writing examples: the ordinal of a year, month and day as
  \<^verbatim>\<open>date(y, m, d).toordinal()\<close> computes it, and the datetime at a time of that day.
\<close>

definition is_leap :: "int \<Rightarrow> bool" where
  "is_leap y = (y mod 4 = 0 \<and> (y mod 100 \<noteq> 0 \<or> y mod 400 = 0))"

definition days_before_year :: "int \<Rightarrow> int" where
  "days_before_year y = (y - 1) * 365 + (y - 1) div 4 - (y - 1) div 100 + (y - 1) div 400"

definition days_before_month :: "int \<Rightarrow> int \<Rightarrow> int" where
  "days_before_month y m =
     [0, 31, 59, 90, 120, 151, 181, 212, 243, 273, 304, 334] ! nat (m - 1)
       + (if 2 < m \<and> is_leap y then 1 else 0)"

definition ymd2ord :: "int \<Rightarrow> int \<Rightarrow> int \<Rightarrow> date" where
  "ymd2ord y m d = days_before_year y + days_before_month y m + d"

definition mk_datetime :: "int \<Rightarrow> int \<Rightarrow> int \<Rightarrow> int \<Rightarrow> int \<Rightarrow> int \<Rightarrow> datetime" where
  "mk_datetime y m d hh mm ss =
     ((ymd2ord y m d - 1) * 86400 + hh * 3600 + mm * 60 + ss) * us_per_second"

subsection \<open>The parsed export\<close>

text \<open>
  One \<^verbatim>\<open>Record\<close> element of the export, as the extractors read it: \<open>r_startDate\<close> and
  \<open>r_endDate\<close> hold \<^verbatim>\<open>parse_date(record.get(...))\<close>, which is \<open>None\<close> when the attribute
  is missing or does not parse; the other fields hold \<^verbatim>\<open>record.get(...)\<close>, \<open>None\<close>
  when the attribute is missing. The document is the list of its records in document order.
\<close>

record xml_record =
  r_type :: "string option"
  r_startDate :: "datetime option"
  r_endDate :: "datetime option"
  r_value :: "string option"
  r_unit :: "string option"
  r_sourceName :: "string option"

definition findall :: "xml_record list \<Rightarrow> string \<Rightarrow> xml_record list" where
  \<comment> \<open>\<^verbatim>\<open>root.findall('.//Record[@type="T"]')\<close>\<close>
  "findall xroot T = filter (\<lambda>r. r_type r = Some T) xroot"

definition get_source :: "xml_record \<Rightarrow> string" where
  \<comment> \<open>\<^verbatim>\<open>record.get('sourceName', 'Unknown')\<close>\<close>
  "get_source r = (case r_sourceName r of None \<Rightarrow> ''Unknown'' | Some s \<Rightarrow> s)"

subsection \<open>Sleep extraction\<close>

record sleep_session =
  s_date :: date
  s_start_time :: timestamp_text
  s_end_time :: timestamp_text
  s_duration_minutes :: rat
  s_duration_hours :: rat
  s_type :: string
  s_source :: string

function str_remove :: "string \<Rightarrow> string \<Rightarrow> string" where
  \<comment> \<open>\<^verbatim>\<open>s.replace(old, '')\<close> for a non-empty \<open>old\<close>: every occurrence, left to right\<close>
  "str_remove old [] = []"
| "str_remove old (c # cs) =
     (if old \<noteq> [] \<and> take (length old) (c # cs) = old
      then str_remove old (drop (length old) (c # cs))
      else c # str_remove old cs)"
  by pat_completeness auto
termination
  by (relation "measure (\<lambda>(old, s). length s)") auto

definition duration_of :: "datetime \<Rightarrow> datetime \<Rightarrow> rat" where
  \<comment> \<open>\<^verbatim>\<open>(end_date - start_date).total_seconds() / 60\<close>\<close>
  "duration_of start_date end_date = of_int (end_date - start_date) / 1000000 / 60"

definition new_session :: "datetime \<Rightarrow> datetime \<Rightarrow> string \<Rightarrow> string \<Rightarrow> sleep_session" where
  "new_session start_date end_date v source =
     (let duration_minutes = duration_of start_date end_date
      in \<lparr> s_date = date_of start_date,
           s_start_time = strftime_full start_date,
           s_end_time = strftime_full end_date,
           s_duration_minutes = py_round duration_minutes 2,
           s_duration_hours = py_round (duration_minutes / 60) 2,
           s_type = str_remove ''HKCategoryValueSleepAnalysis'' v,
           s_source = source \<rparr>)"

fun sleep_loop ::
  "datetime \<Rightarrow> xml_record list \<Rightarrow> sleep_session list \<Rightarrow> error + sleep_session list" where
  "sleep_loop cutoff [] sleep_sessions = Inr sleep_sessions"
| "sleep_loop cutoff (r # rs) sleep_sessions =
     (case (r_startDate r, r_endDate r) of
        (Some start_date, Some end_date) \<Rightarrow>
          if start_date < cutoff then sleep_loop cutoff rs sleep_sessions
          else (case r_value r of
                  None \<Rightarrow> Inl AttributeError
                | Some v \<Rightarrow>
                    sleep_loop cutoff rs
                      (sleep_sessions @ [new_session start_date end_date v (get_source r)]))
      | _ \<Rightarrow> sleep_loop cutoff rs sleep_sessions)"

definition process_sleep_data ::
  "datetime \<Rightarrow> xml_record list \<Rightarrow> int \<Rightarrow> error + sleep_session list" where
  "process_sleep_data now xroot days_back =
     (case cutoff_date now days_back of
        Inl e \<Rightarrow> Inl e
      | Inr cutoff \<Rightarrow>
          sleep_loop cutoff (findall xroot ''HKCategoryTypeIdentifierSleepAnalysis'') [])"

subsection \<open>Cardiac extraction\<close>

text \<open>
  The three extractors build the same dictionary up to the name of the value key
  (\<^verbatim>\<open>heart_rate\<close>, \<^verbatim>\<open>resting_heart_rate\<close>, \<^verbatim>\<open>hrv_sdnn\<close>), here the field \<open>m_value\<close>,
  with the same loop. Python's builtin \<^verbatim>\<open>float\<close> on a string is the parameter \<open>flt\<close>:
  \<open>Some x\<close> when the text is accepted, \<open>None\<close> when it raises \<^verbatim>\<open>ValueError\<close>; on a
  missing attribute (\<^verbatim>\<open>float(None)\<close>) it raises \<^verbatim>\<open>TypeError\<close>.
\<close>

record measurement =
  m_datetime :: timestamp_text
  m_date :: date
  m_value :: rat
  m_unit :: "string option"
  m_source :: string

definition py_float :: "(string \<Rightarrow> rat option) \<Rightarrow> string option \<Rightarrow> error + rat" where
  "py_float flt a =
     (case a of
        None \<Rightarrow> Inl TypeError
      | Some s \<Rightarrow> (case flt s of None \<Rightarrow> Inl ValueError | Some x \<Rightarrow> Inr x))"

definition new_measurement :: "datetime \<Rightarrow> rat \<Rightarrow> xml_record \<Rightarrow> measurement" where
  "new_measurement start_date v r =
     \<lparr> m_datetime = strftime_full start_date,
       m_date = date_of start_date,
       m_value = py_round v 1,
       m_unit = r_unit r,
       m_source = get_source r \<rparr>"

fun measurement_loop ::
  "(string \<Rightarrow> rat option) \<Rightarrow> datetime \<Rightarrow> xml_record list \<Rightarrow> measurement list
     \<Rightarrow> error + measurement list" where
  "measurement_loop flt cutoff [] acc = Inr acc"
| "measurement_loop flt cutoff (r # rs) acc =
     (case r_startDate r of
        None \<Rightarrow> measurement_loop flt cutoff rs acc
      | Some start_date \<Rightarrow>
          if start_date < cutoff then measurement_loop flt cutoff rs acc
          else (case py_float flt (r_value r) of
                  Inl e \<Rightarrow> Inl e
                | Inr v \<Rightarrow>
                    measurement_loop flt cutoff rs (acc @ [new_measurement start_date v r])))"

definition process_heart_rate_data ::
  "(string \<Rightarrow> rat option) \<Rightarrow> datetime \<Rightarrow> xml_record list \<Rightarrow> int \<Rightarrow> error + measurement list"
  where
  "process_heart_rate_data flt now xroot days_back =
     (case cutoff_date now days_back of
        Inl e \<Rightarrow> Inl e
      | Inr cutoff \<Rightarrow>
          measurement_loop flt cutoff (findall xroot ''HKQuantityTypeIdentifierHeartRate'') [])"

definition process_resting_heart_rate ::
  "(string \<Rightarrow> rat option) \<Rightarrow> datetime \<Rightarrow> xml_record list \<Rightarrow> int \<Rightarrow> error + measurement list"
  where
  "process_resting_heart_rate flt now xroot days_back =
     (case cutoff_date now days_back of
        Inl e \<Rightarrow> Inl e
      | Inr cutoff \<Rightarrow>
          measurement_loop flt cutoff
            (findall xroot ''HKQuantityTypeIdentifierRestingHeartRate'') [])"

definition process_hrv_data ::
  "(string \<Rightarrow> rat option) \<Rightarrow> datetime \<Rightarrow> xml_record list \<Rightarrow> int \<Rightarrow> error + measurement list"
  where
  "process_hrv_data flt now xroot days_back =
     (case cutoff_date now days_back of
        Inl e \<Rightarrow> Inl e
      | Inr cutoff \<Rightarrow>
          measurement_loop flt cutoff
            (findall xroot ''HKQuantityTypeIdentifierHeartRateVariabilitySDNN'') [])"

text \<open>
  A reading of \<^verbatim>\<open>float\<close> for the examples: plain decimal numerals \<^verbatim>\<open>digits[.digits]\<close>,
  on which Python's \<^verbatim>\<open>float\<close> succeeds with the value computed here. The theorems below
  hold for every \<open>flt\<close>.
\<close>

fun digits_value :: "string \<Rightarrow> nat \<Rightarrow> nat option" where
  "digits_value [] acc = Some acc"
| "digits_value (c # cs) acc =
     (case map_of [(CHR ''0'', 0), (CHR ''1'', 1), (CHR ''2'', 2), (CHR ''3'', 3), (CHR ''4'', 4),
                   (CHR ''5'', 5), (CHR ''6'', 6), (CHR ''7'', 7), (CHR ''8'', 8), (CHR ''9'', 9)] c of
        None \<Rightarrow> None
      | Some d \<Rightarrow> digits_value cs (10 * acc + d))"

definition float_decimal :: "string \<Rightarrow> rat option" where
  "float_decimal s =
     (let ip = takeWhile (\<lambda>c. c \<noteq> CHR ''.'') s;
          fp = (case dropWhile (\<lambda>c. c \<noteq> CHR ''.'') s of [] \<Rightarrow> [] | _ # t \<Rightarrow> t)
      in if ip = [] \<and> fp = [] then None
         else (case (digits_value ip 0, digits_value fp 0) of
                 (Some a, Some b) \<Rightarrow> Some (of_nat a + of_nat b / 10 ^ length fp)
               | _ \<Rightarrow> None))"

subsection \<open>Dictionaries with a default\<close>

definition dd_get :: "'v \<Rightarrow> 'k \<Rightarrow> ('k \<times> 'v) list \<Rightarrow> 'v" where
  \<comment> \<open>\<^verbatim>\<open>d[k]\<close> on a \<^verbatim>\<open>defaultdict\<close>: the entry, or a fresh default that is then stored by
      \<open>AList.update\<close> at the end of the dictionary\<close>
  "dd_get dflt k d = (case map_of d k of None \<Rightarrow> dflt | Some v \<Rightarrow> v)"

subsection \<open>Nightly sleep aggregation\<close>

record sleep_day =
  sd_date :: "date option"
  total_in_bed_minutes :: rat
  total_asleep_minutes :: rat
  total_awake_minutes :: rat
  core_sleep_minutes :: rat
  deep_sleep_minutes :: rat
  rem_sleep_minutes :: rat
  sd_bedtime :: "datetime option"
  sd_wake_time :: "datetime option"

record sleep_summary =
  ss_date :: date
  bedtime :: string
  wake_time :: string
  time_in_bed_hours :: rat
  total_sleep_hours :: rat
  awake_minutes :: rat
  core_sleep_hours :: rat
  deep_sleep_hours :: rat
  rem_sleep_hours :: rat

definition new_sleep_day :: sleep_day where
  "new_sleep_day =
     \<lparr> sd_date = None, total_in_bed_minutes = 0, total_asleep_minutes = 0,
       total_awake_minutes = 0, core_sleep_minutes = 0, deep_sleep_minutes = 0,
       rem_sleep_minutes = 0, sd_bedtime = None, sd_wake_time = None \<rparr>"

definition sleep_step :: "sleep_session \<Rightarrow> sleep_day \<Rightarrow> sleep_day" where
  \<comment> \<open>the body of the loop over the sessions, on the entry \<^verbatim>\<open>daily_sleep[date]\<close>\<close>
  "sleep_step session e =
     (let sleep_type = s_type session;
          duration = s_duration_minutes session;
          e1 = (if sd_date e = None then e\<lparr>sd_date := Some (s_date session)\<rparr> else e);
          start_time = strptime_full (s_start_time session);
          end_time = strptime_full (s_end_time session);
          e2 = (case sd_bedtime e1 of
                  None \<Rightarrow> e1\<lparr>sd_bedtime := Some start_time\<rparr>
                | Some b \<Rightarrow> if start_time < b then e1\<lparr>sd_bedtime := Some start_time\<rparr> else e1);
          e3 = (case sd_wake_time e2 of
                  None \<Rightarrow> e2\<lparr>sd_wake_time := Some end_time\<rparr>
                | Some w \<Rightarrow> if w < end_time then e2\<lparr>sd_wake_time := Some end_time\<rparr> else e2)
      in if sleep_type = ''InBed''
           then e3\<lparr>total_in_bed_minutes := total_in_bed_minutes e3 + duration\<rparr>
         else if sleep_type \<in> set [''Asleep'', ''AsleepUnspecified'']
           then e3\<lparr>total_asleep_minutes := total_asleep_minutes e3 + duration\<rparr>
         else if sleep_type = ''Awake''
           then e3\<lparr>total_awake_minutes := total_awake_minutes e3 + duration\<rparr>
         else if sleep_type \<in> set [''Core'', ''AsleepCore'']
           then e3\<lparr>core_sleep_minutes := core_sleep_minutes e3 + duration\<rparr>
         else if sleep_type \<in> set [''Deep'', ''AsleepDeep'']
           then e3\<lparr>deep_sleep_minutes := deep_sleep_minutes e3 + duration\<rparr>
         else if sleep_type \<in> set [''REM'', ''AsleepREM'']
           then e3\<lparr>rem_sleep_minutes := rem_sleep_minutes e3 + duration\<rparr>
         else e3)"

fun sleep_days :: "sleep_session list \<Rightarrow> (date \<times> sleep_day) list \<Rightarrow> (date \<times> sleep_day) list"
  where
  "sleep_days [] daily_sleep = daily_sleep"
| "sleep_days (session # sessions) daily_sleep =
     sleep_days sessions
       (AList.update (s_date session)
          (sleep_step session (dd_get new_sleep_day (s_date session) daily_sleep)) daily_sleep)"

definition format_day :: "date \<Rightarrow> sleep_day \<Rightarrow> sleep_summary" where
  "format_day d date_data =
     \<lparr> ss_date = d,
       bedtime = (case sd_bedtime date_data of None \<Rightarrow> [] | Some b \<Rightarrow> strftime_HM b),
       wake_time = (case sd_wake_time date_data of None \<Rightarrow> [] | Some w \<Rightarrow> strftime_HM w),
       time_in_bed_hours = py_round (total_in_bed_minutes date_data / 60) 2,
       total_sleep_hours =
         py_round ((total_asleep_minutes date_data + core_sleep_minutes date_data
                      + deep_sleep_minutes date_data + rem_sleep_minutes date_data) / 60) 2,
       awake_minutes = py_round (total_awake_minutes date_data) 1,
       core_sleep_hours = py_round (core_sleep_minutes date_data / 60) 2,
       deep_sleep_hours = py_round (deep_sleep_minutes date_data / 60) 2,
       rem_sleep_hours = py_round (rem_sleep_minutes date_data / 60) 2 \<rparr>"

text \<open>
  The summary holds \<^verbatim>\<open>date_data['date']\<close>, which the loop has set for every entry it
  created. An entry without a date cannot be ordered against the others by
  \<^verbatim>\<open>sorted\<close>; that branch is \<open>TypeError\<close> here and is shown below never to be taken.
\<close>

fun format_days :: "sleep_day list \<Rightarrow> error + sleep_summary list" where
  "format_days [] = Inr []"
| "format_days (date_data # rest) =
     (case sd_date date_data of
        None \<Rightarrow> Inl TypeError
      | Some d \<Rightarrow>
          (case format_days rest of
             Inl e \<Rightarrow> Inl e
           | Inr result \<Rightarrow> Inr (format_day d date_data # result)))"

definition aggregate_daily_sleep :: "sleep_session list \<Rightarrow> error + sleep_summary list" where
  "aggregate_daily_sleep sleep_sessions =
     (case format_days (map snd (sleep_days sleep_sessions [])) of
        Inl e \<Rightarrow> Inl e
      | Inr result \<Rightarrow> Inr (sort_key ss_date result))"

subsection \<open>Daily cardiac aggregation\<close>

text \<open>
  \<open>heart_day\<close> is the dictionary the aggregator accumulates per date; \<open>d_hr_values\<close> is
  \<open>None\<close> while the key \<^verbatim>\<open>hr_values\<close> is absent. \<open>heart_summary\<close> is the same dictionary
  as the aggregator returns it, once its date is known to be set.
\<close>

record heart_day =
  d_date :: "date option"
  d_hr_avg :: "rat option"
  d_hr_min :: "rat option"
  d_hr_max :: "rat option"
  d_hr_count :: nat
  d_resting_hr :: "rat option"
  d_hrv :: "rat option"
  d_hr_values :: "rat list option"

record heart_summary =
  h_date :: date
  hr_avg :: "rat option"
  hr_min :: "rat option"
  hr_max :: "rat option"
  hr_count :: nat
  resting_hr :: "rat option"
  hrv :: "rat option"

definition new_heart_day :: heart_day where
  "new_heart_day =
     \<lparr> d_date = None, d_hr_avg = None, d_hr_min = None, d_hr_max = None, d_hr_count = 0,
       d_resting_hr = None, d_hrv = None, d_hr_values = None \<rparr>"

fun hr_loop :: "measurement list \<Rightarrow> (date \<times> heart_day) list \<Rightarrow> error + (date \<times> heart_day) list"
  where
  "hr_loop [] daily_data = Inr daily_data"
| "hr_loop (hr # heart_rates) daily_data =
     (let date = m_date hr;
          e = dd_get new_heart_day date daily_data;
          e1 = (if d_date e = None then e\<lparr>d_date := Some date, d_hr_values := Some []\<rparr> else e)
      in case d_hr_values e1 of
           None \<Rightarrow> Inl KeyError
         | Some vs \<Rightarrow>
             hr_loop heart_rates
               (AList.update date (e1\<lparr>d_hr_values := Some (vs @ [m_value hr])\<rparr>) daily_data))"

definition calc_stats :: "heart_day \<Rightarrow> heart_day" where
  "calc_stats e =
     (case d_hr_values e of
        Some (v # vs) \<Rightarrow>
          e\<lparr> d_hr_avg := Some (py_round (sum_list (v # vs) / of_nat (length (v # vs))) 1),
             d_hr_min := Some (py_round (fold min vs v) 1),
             d_hr_max := Some (py_round (fold max vs v) 1),
             d_hr_count := length (v # vs),
             d_hr_values := None \<rparr>
      | _ \<Rightarrow> e)"

fun resting_loop :: "measurement list \<Rightarrow> (date \<times> heart_day) list \<Rightarrow> (date \<times> heart_day) list"
  where
  "resting_loop [] daily_data = daily_data"
| "resting_loop (rhr # resting_hrs) daily_data =
     (let date = m_date rhr;
          e = dd_get new_heart_day date daily_data;
          e1 = (if d_date e = None then e\<lparr>d_date := Some date\<rparr> else e)
      in resting_loop resting_hrs
           (AList.update date (e1\<lparr>d_resting_hr := Some (m_value rhr)\<rparr>) daily_data))"

fun hrv_loop :: "measurement list \<Rightarrow> (date \<times> heart_day) list \<Rightarrow> (date \<times> heart_day) list"
  where
  "hrv_loop [] daily_data = daily_data"
| "hrv_loop (h # hrvs) daily_data =
     (let date = m_date h;
          e = dd_get new_heart_day date daily_data;
          e1 = (if d_date e = None then e\<lparr>d_date := Some date\<rparr> else e)
      in hrv_loop hrvs (AList.update date (e1\<lparr>d_hrv := Some (m_value h)\<rparr>) daily_data))"

text \<open>
  As for the sleep summaries, a returned dictionary without a date could not be ordered by
  the merge step; the branch is \<open>TypeError\<close> and is never taken.
\<close>

fun heart_summaries :: "heart_day list \<Rightarrow> error + heart_summary list" where
  "heart_summaries [] = Inr []"
| "heart_summaries (e # es) =
     (case d_date e of
        None \<Rightarrow> Inl TypeError
      | Some d \<Rightarrow>
          (case heart_summaries es of
             Inl x \<Rightarrow> Inl x
           | Inr hs \<Rightarrow>
               Inr (\<lparr> h_date = d, hr_avg = d_hr_avg e, hr_min = d_hr_min e, hr_max = d_hr_max e,
                      hr_count = d_hr_count e, resting_hr = d_resting_hr e, hrv = d_hrv e \<rparr>
                    # hs)))"

definition aggregate_daily_heart_data ::
  "date \<Rightarrow> measurement list \<Rightarrow> measurement list \<Rightarrow> measurement list \<Rightarrow> error + heart_summary list"
  where
  \<comment> \<open>\<open>today\<close> is \<^verbatim>\<open>datetime.now().date()\<close>, which the sort key falls back to for a
      dictionary without a date\<close>
  "aggregate_daily_heart_data today heart_rates resting_hrs hrvs =
     (case hr_loop heart_rates [] of
        Inl e \<Rightarrow> Inl e
      | Inr d1 \<Rightarrow>
          (let d2 = map (\<lambda>(date, e). (date, calc_stats e)) d1;
               d3 = resting_loop resting_hrs d2;
               d4 = hrv_loop hrvs d3
           in heart_summaries
                (sort_key (\<lambda>x. case d_date x of Some d \<Rightarrow> d | None \<Rightarrow> today) (map snd d4))))"

subsection \<open>Merging the two daily tables\<close>

datatype pyval = PyStr string | PyFloat rat | PyInt int | PyNone

record combined_row =
  row_date :: date
  row_bedtime :: pyval
  row_wake_time :: pyval
  row_time_in_bed_hours :: pyval
  row_total_sleep_hours :: pyval
  row_awake_minutes :: pyval
  row_core_sleep_hours :: pyval
  row_deep_sleep_hours :: pyval
  row_rem_sleep_hours :: pyval
  row_hr_avg :: pyval
  row_hr_min :: pyval
  row_hr_max :: pyval
  row_hr_measurements :: pyval
  row_resting_hr :: pyval
  row_hrv_sdnn :: pyval

definition empty_marker :: pyval where
  \<comment> \<open>the empty string \<^verbatim>\<open>''\<close>\<close>
  "empty_marker = PyStr []"

definition float_or_none :: "rat option \<Rightarrow> pyval" where
  "float_or_none v = (case v of None \<Rightarrow> PyNone | Some x \<Rightarrow> PyFloat x)"

definition by_date :: "('a \<Rightarrow> date) \<Rightarrow> 'a list \<Rightarrow> (date \<times> 'a) list" where
  \<comment> \<open>\<^verbatim>\<open>{x['date']: x for x in xs}\<close>\<close>
  "by_date key xs = fold (\<lambda>x d. AList.update (key x) x d) xs []"

definition combined :: "date \<Rightarrow> sleep_summary option \<Rightarrow> heart_summary option \<Rightarrow> combined_row"
  where
  "combined date sl ht =
     (let row = \<lparr> row_date = date,
                  row_bedtime = PyNone, row_wake_time = PyNone,
                  row_time_in_bed_hours = PyNone, row_total_sleep_hours = PyNone,
                  row_awake_minutes = PyNone, row_core_sleep_hours = PyNone,
                  row_deep_sleep_hours = PyNone, row_rem_sleep_hours = PyNone,
                  row_hr_avg = PyNone, row_hr_min = PyNone, row_hr_max = PyNone,
                  row_hr_measurements = PyNone, row_resting_hr = PyNone,
                  row_hrv_sdnn = PyNone \<rparr>;
          row = (case sl of
                   Some s \<Rightarrow>
                     row\<lparr> row_bedtime := PyStr (bedtime s),
                          row_wake_time := PyStr (wake_time s),
                          row_time_in_bed_hours := PyFloat (time_in_bed_hours s),
                          row_total_sleep_hours := PyFloat (total_sleep_hours s),
                          row_awake_minutes := PyFloat (awake_minutes s),
                          row_core_sleep_hours := PyFloat (core_sleep_hours s),
                          row_deep_sleep_hours := PyFloat (deep_sleep_hours s),
                          row_rem_sleep_hours := PyFloat (rem_sleep_hours s) \<rparr>
                 | None \<Rightarrow>
                     row\<lparr> row_bedtime := empty_marker, row_wake_time := empty_marker,
                          row_time_in_bed_hours := empty_marker,
                          row_total_sleep_hours := empty_marker,
                          row_awake_minutes := empty_marker,
                          row_core_sleep_hours := empty_marker,
                          row_deep_sleep_hours := empty_marker,
                          row_rem_sleep_hours := empty_marker \<rparr>)
      in (case ht of
            Some h \<Rightarrow>
              row\<lparr> row_hr_avg := float_or_none (hr_avg h),
                   row_hr_min := float_or_none (hr_min h),
                   row_hr_max := float_or_none (hr_max h),
                   row_hr_measurements := PyInt (int (hr_count h)),
                   row_resting_hr := float_or_none (resting_hr h),
                   row_hrv_sdnn := float_or_none (hrv h) \<rparr>
          | None \<Rightarrow>
              row\<lparr> row_hr_avg := empty_marker, row_hr_min := empty_marker,
                   row_hr_max := empty_marker, row_hr_measurements := empty_marker,
                   row_resting_hr := empty_marker, row_hrv_sdnn := empty_marker \<rparr>))"

definition generate_spreadsheet :: "sleep_summary list \<Rightarrow> heart_summary list \<Rightarrow> combined_row list"
  where
  \<comment> \<open>the rows \<^verbatim>\<open>combined_data\<close> handed to the CSV writer\<close>
  "generate_spreadsheet sleep_data heart_data =
     (let sleep_by_date = by_date ss_date sleep_data;
          heart_by_date = by_date h_date heart_data;
          all_dates = set (map fst sleep_by_date) \<union> set (map fst heart_by_date)
      in map (\<lambda>date. combined date (map_of sleep_by_date date) (map_of heart_by_date date))
           (sorted_list_of_set all_dates))"

subsection \<open>The run\<close>

text \<open>
  The processing part of \<^verbatim>\<open>main\<close>, from the parsed document to the rows. Every extractor
  calls \<^verbatim>\<open>datetime.now()\<close> itself: \<open>clock i\<close> is the wall-clock reading of the \<open>i\<close>-th call
  of the run. An exception anywhere ends the run without rows.
\<close>

definition main_core ::
  "(string \<Rightarrow> rat option) \<Rightarrow> (nat \<Rightarrow> datetime) \<Rightarrow> xml_record list \<Rightarrow> int
     \<Rightarrow> error + combined_row list" where
  "main_core flt clock xroot days =
     (case process_sleep_data (clock 0) xroot days of
        Inl e \<Rightarrow> Inl e
      | Inr sleep_sessions \<Rightarrow>
     (case process_heart_rate_data flt (clock 1) xroot days of
        Inl e \<Rightarrow> Inl e
      | Inr heart_rates \<Rightarrow>
     (case process_resting_heart_rate flt (clock 2) xroot days of
        Inl e \<Rightarrow> Inl e
      | Inr resting_hrs \<Rightarrow>
     (case process_hrv_data flt (clock 3) xroot days of
        Inl e \<Rightarrow> Inl e
      | Inr hrvs \<Rightarrow>
     (case aggregate_daily_sleep sleep_sessions of
        Inl e \<Rightarrow> Inl e
      | Inr daily_sleep \<Rightarrow>
     (case aggregate_daily_heart_data (date_of (clock 4)) heart_rates resting_hrs hrvs of
        Inl e \<Rightarrow> Inl e
      | Inr daily_heart \<Rightarrow> Inr (generate_spreadsheet daily_sleep daily_heart)))))))"

subsection \<open>Vocabulary of the statements\<close>

text \<open>
  The window contract as the specification words it: an event is within the window when
  its start is not before \<open>now\<close> minus \<open>days_back\<close> days.
\<close>

definition is_within_window :: "datetime \<Rightarrow> datetime \<Rightarrow> int \<Rightarrow> bool" where
  "is_within_window start now days_back = (now - days_back * us_per_day \<le> start)"

text \<open>
  The records an extractor keeps: both timestamps (for a cardiac record, the start) parsed,
  and the start within the window. \<open>sleep_session_of\<close> and \<open>measurement_of\<close> are the
  dictionaries built from a record with usable attributes.
\<close>

definition kept_sleep :: "datetime \<Rightarrow> int \<Rightarrow> xml_record \<Rightarrow> bool" where
  "kept_sleep now days_back r =
     (case (r_startDate r, r_endDate r) of
        (Some s, Some e) \<Rightarrow> is_within_window s now days_back
      | _ \<Rightarrow> False)"

definition kept_cardiac :: "datetime \<Rightarrow> int \<Rightarrow> xml_record \<Rightarrow> bool" where
  "kept_cardiac now days_back r =
     (case r_startDate r of
        Some s \<Rightarrow> is_within_window s now days_back
      | None \<Rightarrow> False)"

definition sleep_session_of :: "xml_record \<Rightarrow> sleep_session option" where
  "sleep_session_of r =
     (case (r_startDate r, r_endDate r, r_value r) of
        (Some s, Some e, Some v) \<Rightarrow> Some (new_session s e v (get_source r))
      | _ \<Rightarrow> None)"

definition measurement_of :: "(string \<Rightarrow> rat option) \<Rightarrow> xml_record \<Rightarrow> measurement option" where
  "measurement_of flt r =
     (case (r_startDate r, py_float flt (r_value r)) of
        (Some s, Inr v) \<Rightarrow> Some (new_measurement s v r)
      | _ \<Rightarrow> None)"

definition stale :: "datetime \<Rightarrow> int \<Rightarrow> xml_record \<Rightarrow> bool" where
  \<comment> \<open>the start parsed and lies before the window\<close>
  "stale now days_back r =
     (case r_startDate r of
        Some s \<Rightarrow> s < now - days_back * us_per_day
      | None \<Rightarrow> False)"

text \<open>
  The sessions of one night, the minutes they give to a stage bucket (a bucket being the
  list of labels the aggregator files under it), the labels the aggregator recognises, and
  the six totals of a summary.
\<close>

definition night :: "date \<Rightarrow> sleep_session list \<Rightarrow> sleep_session list" where
  "night d sessions = filter (\<lambda>x. s_date x = d) sessions"

definition stage_minutes :: "string list \<Rightarrow> sleep_session list \<Rightarrow> rat" where
  "stage_minutes labels sessions =
     sum_list (map s_duration_minutes (filter (\<lambda>x. s_type x \<in> set labels) sessions))"

definition recognized :: "string \<Rightarrow> bool" where
  "recognized t =
     (t \<in> set [''InBed'', ''Asleep'', ''AsleepUnspecified'', ''Awake'', ''Core'', ''AsleepCore'',
               ''Deep'', ''AsleepDeep'', ''REM'', ''AsleepREM''])"

definition stage_totals :: "sleep_summary \<Rightarrow> rat \<times> rat \<times> rat \<times> rat \<times> rat \<times> rat" where
  "stage_totals s =
     (time_in_bed_hours s, total_sleep_hours s, awake_minutes s, core_sleep_hours s,
      deep_sleep_hours s, rem_sleep_hours s)"

definition start_of :: "sleep_session \<Rightarrow> datetime" where
  "start_of x = strptime_full (s_start_time x)"

definition end_of :: "sleep_session \<Rightarrow> datetime" where
  "end_of x = strptime_full (s_end_time x)"

text \<open>
  For the cardiac aggregator: an entry with its date set if it had none, the dictionary an
  entry is returned as, and the value of the last measurement of a date in input order.
\<close>

definition dated :: "date \<Rightarrow> heart_day \<Rightarrow> heart_day" where
  "dated d e = (if d_date e = None then e\<lparr>d_date := Some d\<rparr> else e)"

definition summary_of :: "date \<Rightarrow> heart_day \<Rightarrow> heart_summary" where
  "summary_of d e =
     \<lparr> h_date = d, hr_avg = d_hr_avg e, hr_min = d_hr_min e, hr_max = d_hr_max e,
       hr_count = d_hr_count e, resting_hr = d_resting_hr e, hrv = d_hrv e \<rparr>"

definition last_value :: "date \<Rightarrow> measurement list \<Rightarrow> rat" where
  "last_value d ms = m_value (last (filter (\<lambda>m. m_date m = d) ms))"

subsection \<open>Example inputs\<close>

definition ex_sleep :: sleep_summary where
  "ex_sleep = \<lparr> ss_date = 738886, bedtime = ''23:00'', wake_time = ''06:30'',
       time_in_bed_hours = 0, total_sleep_hours = 15 / 2, awake_minutes = 0,
       core_sleep_hours = 3 / 2, deep_sleep_hours = 6, rem_sleep_hours = 0 \<rparr>"

definition ex_heart :: heart_summary where
  "ex_heart = \<lparr> h_date = 738888, hr_avg = Some 70, hr_min = Some 60, hr_max = Some 80,
       hr_count = 3, resting_hr = Some 58, hrv = None \<rparr>"

definition xml ::
  "string \<Rightarrow> datetime option \<Rightarrow> datetime option \<Rightarrow> string option \<Rightarrow> xml_record" where
  "xml t s e v =
     \<lparr> r_type = Some t, r_startDate = s, r_endDate = e, r_value = v, r_unit = None,
       r_sourceName = None \<rparr>"

definition ex_now :: datetime where
  "ex_now = mk_datetime 2024 1 10 12 0 0"

definition ex_export :: "xml_record list" where
  "ex_export =
     [xml ''HKCategoryTypeIdentifierSleepAnalysis''
        (Some (mk_datetime 2024 1 1 23 0 0)) (Some (mk_datetime 2024 1 2 0 30 0))
        (Some ''HKCategoryValueSleepAnalysisCore''),
      xml ''HKCategoryTypeIdentifierSleepAnalysis''
        (Some (mk_datetime 2023 11 1 23 0 0)) (Some (mk_datetime 2023 11 2 7 0 0))
        (Some ''HKCategoryValueSleepAnalysisInBed''),
      xml ''HKCategoryTypeIdentifierSleepAnalysis''
        (Some (mk_datetime 2024 1 5 23 0 0)) None None,
      xml ''HKQuantityTypeIdentifierHeartRate''
        (Some (mk_datetime 2024 1 3 8 0 0)) None (Some ''60''),
      xml ''HKQuantityTypeIdentifierHeartRate''
        (Some (mk_datetime 2023 11 1 8 0 0)) None (Some ''n/a''),
      xml ''HKQuantityTypeIdentifierRestingHeartRate''
        (Some (mk_datetime 2024 1 3 9 0 0)) None (Some ''55''),
      xml ''HKQuantityTypeIdentifierHeartRateVariabilitySDNN''
        (Some (mk_datetime 2024 1 3 9 30 0)) None (Some ''41.5'')]"

definition ex_corrupt :: "xml_record list" where
  "ex_corrupt =
     [xml ''HKQuantityTypeIdentifierHeartRate''
        (Some (mk_datetime 2024 1 3 8 0 0)) None (Some ''60''),
      xml ''HKQuantityTypeIdentifierHeartRate''
        (Some (mk_datetime 2024 1 3 8 5 0)) None (Some ''n/a''),
      xml ''HKQuantityTypeIdentifierHeartRate''
        (Some (mk_datetime 2024 1 3 8 10 0)) None (Some ''80'')]"

text \<open>
  The two sessions of the scenario 23:00 to 00:30 (Core) and 00:30 to 06:30 (Deep): as
  records of the export, and as sessions that both carry the night date 2024-01-01.
\<close>

definition ex_scenario :: "xml_record list" where
  "ex_scenario =
     [xml ''HKCategoryTypeIdentifierSleepAnalysis''
        (Some (mk_datetime 2024 1 1 23 0 0)) (Some (mk_datetime 2024 1 2 0 30 0))
        (Some ''HKCategoryValueSleepAnalysisCore''),
      xml ''HKCategoryTypeIdentifierSleepAnalysis''
        (Some (mk_datetime 2024 1 2 0 30 0)) (Some (mk_datetime 2024 1 2 6 30 0))
        (Some ''HKCategoryValueSleepAnalysisDeep'')]"

definition ex_night :: "sleep_session list" where
  "ex_night =
     [\<lparr> s_date = ymd2ord 2024 1 1,
        s_start_time = strftime_full (mk_datetime 2024 1 1 23 0 0),
        s_end_time = strftime_full (mk_datetime 2024 1 2 0 30 0),
        s_duration_minutes = 90, s_duration_hours = 3 / 2, s_type = ''Core'',
        s_source = ''Unknown'' \<rparr>,
      \<lparr> s_date = ymd2ord 2024 1 1,
        s_start_time = strftime_full (mk_datetime 2024 1 2 0 30 0),
        s_end_time = strftime_full (mk_datetime 2024 1 2 6 30 0),
        s_duration_minutes = 360, s_duration_hours = 6, s_type = ''Deep'',
        s_source = ''Unknown'' \<rparr>]"




text \<open>A session with a label the aggregator does not know, earlier than the night's others.\<close>

definition ex_nap :: sleep_session where
  "ex_nap =
     new_session (mk_datetime 2024 1 1 21 15 0) (mk_datetime 2024 1 1 21 45 0)
       ''HKCategoryValueSleepAnalysisNapping'' ''Unknown''"

definition ex_nap_record :: xml_record where
  "ex_nap_record =
     xml ''HKCategoryTypeIdentifierSleepAnalysis''
       (Some (mk_datetime 2024 1 1 21 15 0)) (Some (mk_datetime 2024 1 1 21 45 0))
       (Some ''HKCategoryValueSleepAnalysisNapping'')"


text \<open>
  Two resting heart rate measurements of one day, 55 then 58, and two HRV measurements;
  clocks for two runs; a sleep record and a heart rate record that start exactly thirty
  days before \<open>ex_now\<close>.
\<close>

definition ex_resting :: "measurement list" where
  "ex_resting =
     [\<lparr> m_datetime = strftime_full (mk_datetime 2024 1 3 7 0 0), m_date = ymd2ord 2024 1 3,
        m_value = 55, m_unit = Some ''count/min'', m_source = ''Unknown'' \<rparr>,
      \<lparr> m_datetime = strftime_full (mk_datetime 2024 1 3 21 0 0), m_date = ymd2ord 2024 1 3,
        m_value = 58, m_unit = Some ''count/min'', m_source = ''Unknown'' \<rparr>]"

definition ex_hrvs :: "measurement list" where
  "ex_hrvs =
     [\<lparr> m_datetime = strftime_full (mk_datetime 2024 1 3 7 5 0), m_date = ymd2ord 2024 1 3,
        m_value = 41, m_unit = Some ''ms'', m_source = ''Unknown'' \<rparr>,
      \<lparr> m_datetime = strftime_full (mk_datetime 2024 1 4 7 5 0), m_date = ymd2ord 2024 1 4,
        m_value = 39, m_unit = Some ''ms'', m_source = ''Unknown'' \<rparr>,
      \<lparr> m_datetime = strftime_full (mk_datetime 2024 1 3 22 5 0), m_date = ymd2ord 2024 1 3,
        m_value = 47, m_unit = Some ''ms'', m_source = ''Unknown'' \<rparr>]"

definition ex_clock_fixed :: "nat \<Rightarrow> datetime" where
  "ex_clock_fixed i = ex_now"

definition ex_clock_ticking :: "nat \<Rightarrow> datetime" where
  "ex_clock_ticking i = ex_now + int i * us_per_second"

definition ex_clock_late :: "nat \<Rightarrow> datetime" where
  "ex_clock_late i = (if i < 4 then ex_now else ex_now + us_per_day)"

definition ex_boundary :: "xml_record list" where
  "ex_boundary =
     [xml ''HKCategoryTypeIdentifierSleepAnalysis''
        (Some (mk_datetime 2023 12 11 12 0 0)) (Some (mk_datetime 2023 12 11 12 30 0))
        (Some ''HKCategoryValueSleepAnalysisCore''),
      xml ''HKQuantityTypeIdentifierHeartRate''
        (Some (mk_datetime 2023 12 11 12 0 0)) None (Some ''60'')]"

section \<open>Properties\<close>

subsection \<open>The merge step\<close>

lemma by_date_fold_keys:
  "fst ` set (fold (\<lambda>x d. AList.update (key x) x d) xs al) = key ` set xs \<union> fst ` set al"
  by (induction xs arbitrary: al) (auto simp: dom_update)

lemma by_date_keys: "fst ` set (by_date key xs) = key ` set xs"
  by (simp add: by_date_def by_date_fold_keys)

lemma by_date_lookup_None: "map_of (by_date key xs) d = None \<longleftrightarrow> d \<notin> key ` set xs"
  by (simp add: map_of_eq_None_iff by_date_keys)

lemma row_date_combined: "row_date (combined d sl ht) = d"
  by (simp add: combined_def Let_def split: option.splits)

lemma combined_no_sleep:
  "combined d None ht = r \<Longrightarrow>
     row_bedtime r = empty_marker \<and> row_wake_time r = empty_marker
     \<and> row_time_in_bed_hours r = empty_marker \<and> row_total_sleep_hours r = empty_marker
     \<and> row_awake_minutes r = empty_marker \<and> row_core_sleep_hours r = empty_marker
     \<and> row_deep_sleep_hours r = empty_marker \<and> row_rem_sleep_hours r = empty_marker"
  by (auto simp add: combined_def Let_def split: option.splits)

lemma combined_no_heart:
  "combined d sl None = r \<Longrightarrow>
     row_hr_avg r = empty_marker \<and> row_hr_min r = empty_marker \<and> row_hr_max r = empty_marker
     \<and> row_hr_measurements r = empty_marker \<and> row_resting_hr r = empty_marker
     \<and> row_hrv_sdnn r = empty_marker"
  by (auto simp add: combined_def Let_def split: option.splits)

lemma generate_spreadsheet_dates:
  "map row_date (generate_spreadsheet sl ht)
     = sorted_list_of_set (ss_date ` set sl \<union> h_date ` set ht)"
  by (simp add: generate_spreadsheet_def Let_def o_def row_date_combined by_date_keys)

lemma generate_spreadsheet_row:
  assumes "row \<in> set (generate_spreadsheet sl ht)"
  shows "row = combined (row_date row) (map_of (by_date ss_date sl) (row_date row))
                 (map_of (by_date h_date ht) (row_date row))"
  using assms by (auto simp add: generate_spreadsheet_def Let_def row_date_combined)

text \<open>
  C1. The merge step is an outer join on the date: the rows carry exactly the dates of the
  union of the two inputs, each once and in ascending order, and a row whose date has no
  sleep summary (no cardiac summary) has the empty marker in all eight sleep fields (all six
  cardiac fields).
\<close>

theorem merge_outer_join:
  "distinct (map row_date (generate_spreadsheet sl ht))
   \<and> sorted (map row_date (generate_spreadsheet sl ht))
   \<and> set (map row_date (generate_spreadsheet sl ht)) = ss_date ` set sl \<union> h_date ` set ht
   \<and> length (generate_spreadsheet sl ht) = card (ss_date ` set sl \<union> h_date ` set ht)
   \<and> (\<forall>row \<in> set (generate_spreadsheet sl ht).
        (row_date row \<notin> ss_date ` set sl \<longrightarrow>
           row_bedtime row = empty_marker \<and> row_wake_time row = empty_marker
           \<and> row_time_in_bed_hours row = empty_marker \<and> row_total_sleep_hours row = empty_marker
           \<and> row_awake_minutes row = empty_marker \<and> row_core_sleep_hours row = empty_marker
           \<and> row_deep_sleep_hours row = empty_marker \<and> row_rem_sleep_hours row = empty_marker)
        \<and> (row_date row \<notin> h_date ` set ht \<longrightarrow>
           row_hr_avg row = empty_marker \<and> row_hr_min row = empty_marker
           \<and> row_hr_max row = empty_marker \<and> row_hr_measurements row = empty_marker
           \<and> row_resting_hr row = empty_marker \<and> row_hrv_sdnn row = empty_marker))"
proof -
  let ?U = "ss_date ` set sl \<union> h_date ` set ht"
  have fin: "finite ?U" by simp
  have dates: "map row_date (generate_spreadsheet sl ht) = sorted_list_of_set ?U"
    by (rule generate_spreadsheet_dates)
  have len: "length (generate_spreadsheet sl ht) = card ?U"
    using arg_cong [OF dates, of length] by simp
  have cells: "\<forall>row \<in> set (generate_spreadsheet sl ht).
        (row_date row \<notin> ss_date ` set sl \<longrightarrow>
           row_bedtime row = empty_marker \<and> row_wake_time row = empty_marker
           \<and> row_time_in_bed_hours row = empty_marker \<and> row_total_sleep_hours row = empty_marker
           \<and> row_awake_minutes row = empty_marker \<and> row_core_sleep_hours row = empty_marker
           \<and> row_deep_sleep_hours row = empty_marker \<and> row_rem_sleep_hours row = empty_marker)
        \<and> (row_date row \<notin> h_date ` set ht \<longrightarrow>
           row_hr_avg row = empty_marker \<and> row_hr_min row = empty_marker
           \<and> row_hr_max row = empty_marker \<and> row_hr_measurements row = empty_marker
           \<and> row_resting_hr row = empty_marker \<and> row_hrv_sdnn row = empty_marker)"
  proof (intro ballI conjI impI)
    fix row assume r: "row \<in> set (generate_spreadsheet sl ht)"
    note eq = generate_spreadsheet_row [OF r]
    {
      assume "row_date row \<notin> ss_date ` set sl"
      then have "map_of (by_date ss_date sl) (row_date row) = None"
        by (simp add: by_date_lookup_None)
      with eq have e: "combined (row_date row) None (map_of (by_date h_date ht) (row_date row)) = row"
        by simp
      note combined_no_sleep [OF e]
    } note A = this
    {
      assume "row_date row \<notin> h_date ` set ht"
      then have "map_of (by_date h_date ht) (row_date row) = None"
        by (simp add: by_date_lookup_None)
      with eq have e: "combined (row_date row) (map_of (by_date ss_date sl) (row_date row)) None = row"
        by simp
      note combined_no_heart [OF e]
    } note B = this
    show "row_date row \<notin> ss_date ` set sl \<Longrightarrow> row_bedtime row = empty_marker" using A by blast
    show "row_date row \<notin> ss_date ` set sl \<Longrightarrow> row_wake_time row = empty_marker" using A by blast
    show "row_date row \<notin> ss_date ` set sl \<Longrightarrow> row_time_in_bed_hours row = empty_marker" using A by blast
    show "row_date row \<notin> ss_date ` set sl \<Longrightarrow> row_total_sleep_hours row = empty_marker" using A by blast
    show "row_date row \<notin> ss_date ` set sl \<Longrightarrow> row_awake_minutes row = empty_marker" using A by blast
    show "row_date row \<notin> ss_date ` set sl \<Longrightarrow> row_core_sleep_hours row = empty_marker" using A by blast
    show "row_date row \<notin> ss_date ` set sl \<Longrightarrow> row_deep_sleep_hours row = empty_marker" using A by blast
    show "row_date row \<notin> ss_date ` set sl \<Longrightarrow> row_rem_sleep_hours row = empty_marker" using A by blast
    show "row_date row \<notin> h_date ` set ht \<Longrightarrow> row_hr_avg row = empty_marker" using B by blast
    show "row_date row \<notin> h_date ` set ht \<Longrightarrow> row_hr_min row = empty_marker" using B by blast
    show "row_date row \<notin> h_date ` set ht \<Longrightarrow> row_hr_max row = empty_marker" using B by blast
    show "row_date row \<notin> h_date ` set ht \<Longrightarrow> row_hr_measurements row = empty_marker" using B by blast
    show "row_date row \<notin> h_date ` set ht \<Longrightarrow> row_resting_hr row = empty_marker" using B by blast
    show "row_date row \<notin> h_date ` set ht \<Longrightarrow> row_hrv_sdnn row = empty_marker" using B by blast
  qed
  show ?thesis
    using fin len cells by (simp only: dates) simp
qed

theorem merge_outer_join_witness:
  "map row_date (generate_spreadsheet [ex_sleep] [ex_heart]) = [738886, 738888]
   \<and> (\<exists>row \<in> set (generate_spreadsheet [ex_sleep] [ex_heart]).
         row_date row \<notin> ss_date ` set [ex_sleep] \<and> row_bedtime row = empty_marker
         \<and> row_rem_sleep_hours row = empty_marker)
   \<and> (\<exists>row \<in> set (generate_spreadsheet [ex_sleep] [ex_heart]).
         row_date row \<notin> h_date ` set [ex_heart] \<and> row_hr_avg row = empty_marker
         \<and> row_hrv_sdnn row = empty_marker)"
proof -
  have rows: "generate_spreadsheet [ex_sleep] [ex_heart]
                = [combined 738886 (Some ex_sleep) None, combined 738888 None (Some ex_heart)]"
    by (simp add: generate_spreadsheet_def by_date_def ex_sleep_def ex_heart_def Let_def)
  show ?thesis
    using merge_outer_join [of "[ex_sleep]" "[ex_heart]"]
    unfolding rows by (simp add: combined_def ex_sleep_def ex_heart_def)
qed

subsection \<open>The extractors\<close>

lemma cutoff_date_Inr:
  "cutoff_date now days_back = Inr c \<Longrightarrow> c = now - days_back * us_per_day"
  by (auto simp: cutoff_date_def timedelta_days_def datetime_sub_def Let_def split: if_splits)

lemma sleep_loop_char:
  "sleep_loop c rs acc =
     (if \<forall>r \<in> set rs. kept_sleep c 0 r \<longrightarrow> r_value r \<noteq> None
      then Inr (acc @ List.map_filter sleep_session_of (filter (kept_sleep c 0) rs))
      else Inl AttributeError)"
proof (induction rs arbitrary: acc)
  case Nil
  show ?case by (simp add: List.map_filter_simps)
next
  case (Cons r rs)
  show ?case
  proof (cases "kept_sleep c 0 r")
    case False
    then have "sleep_loop c (r # rs) acc = sleep_loop c rs acc"
      by (auto simp: kept_sleep_def is_within_window_def split: option.splits)
    with False Cons.IH [of acc] show ?thesis by simp
  next
    case True
    then obtain s e where se: "r_startDate r = Some s" "r_endDate r = Some e" "c \<le> s"
      by (auto simp: kept_sleep_def is_within_window_def split: option.splits)
    show ?thesis
    proof (cases "r_value r")
      case None
      with se True show ?thesis by auto
    next
      case (Some v)
      with se have "sleep_loop c (r # rs) acc
                      = sleep_loop c rs (acc @ [new_session s e v (get_source r)])"
        by simp
      moreover have "sleep_session_of r = Some (new_session s e v (get_source r))"
        using se Some by (simp add: sleep_session_of_def)
      ultimately show ?thesis
        using True Some Cons.IH [of "acc @ [new_session s e v (get_source r)]"]
        by (simp add: List.map_filter_simps)
    qed
  qed
qed

lemma measurement_loop_char:
  "if \<forall>r \<in> set rs. kept_cardiac c 0 r \<longrightarrow> measurement_of flt r \<noteq> None
   then measurement_loop flt c rs acc
          = Inr (acc @ List.map_filter (measurement_of flt) (filter (kept_cardiac c 0) rs))
   else (\<exists>e. measurement_loop flt c rs acc = Inl e)"
proof (induction rs arbitrary: acc)
  case Nil
  show ?case by (simp add: List.map_filter_simps)
next
  case (Cons r rs)
  show ?case
  proof (cases "kept_cardiac c 0 r")
    case False
    then have "measurement_loop flt c (r # rs) acc = measurement_loop flt c rs acc"
      by (auto simp: kept_cardiac_def is_within_window_def split: option.splits)
    with False Cons.IH [of acc] show ?thesis by simp
  next
    case True
    then obtain s where se: "r_startDate r = Some s" "c \<le> s"
      by (auto simp: kept_cardiac_def is_within_window_def split: option.splits)
    show ?thesis
    proof (cases "py_float flt (r_value r)")
      case (Inl e)
      with se True show ?thesis by (auto simp: measurement_of_def)
    next
      case (Inr v)
      with se have "measurement_loop flt c (r # rs) acc
                      = measurement_loop flt c rs (acc @ [new_measurement s v r])"
        by simp
      moreover have "measurement_of flt r = Some (new_measurement s v r)"
        using se Inr by (simp add: measurement_of_def)
      ultimately show ?thesis
        using True Cons.IH [of "acc @ [new_measurement s v r]"]
        by (simp add: List.map_filter_simps)
    qed
  qed
qed

lemma is_within_window_cutoff:
  "is_within_window s (now - days_back * us_per_day) 0 = is_within_window s now days_back"
  by (simp add: is_within_window_def)

lemma kept_sleep_cutoff:
  "cutoff_date now days_back = Inr c \<Longrightarrow> kept_sleep c 0 = kept_sleep now days_back"
  by (drule cutoff_date_Inr) (simp add: fun_eq_iff kept_sleep_def is_within_window_cutoff cong: option.case_cong)

lemma kept_cardiac_cutoff:
  "cutoff_date now days_back = Inr c \<Longrightarrow> kept_cardiac c 0 = kept_cardiac now days_back"
  by (drule cutoff_date_Inr) (simp add: fun_eq_iff kept_cardiac_def is_within_window_cutoff cong: option.case_cong)

lemma findall_filter: "findall (filter P xs) T = filter P (findall xs T)"
  by (induction xs) (auto simp: findall_def)

lemma stale_zero: "stale c 0 r \<longleftrightarrow> (\<exists>s. r_startDate r = Some s \<and> s < c)"
  by (simp add: stale_def split: option.splits)

lemma sleep_loop_stale:
  "sleep_loop c (filter (\<lambda>r. \<not> stale c 0 r) rs) acc = sleep_loop c rs acc"
  by (induction rs arbitrary: acc) (auto simp: stale_zero split: option.splits)

lemma measurement_loop_stale:
  "measurement_loop flt c (filter (\<lambda>r. \<not> stale c 0 r) rs) acc = measurement_loop flt c rs acc"
  by (induction rs arbitrary: acc) (auto simp: stale_zero split: option.splits sum.splits)

lemma stale_cutoff:
  "cutoff_date now days_back = Inr c \<Longrightarrow> stale c 0 = stale now days_back"
  by (drule cutoff_date_Inr) (simp add: fun_eq_iff stale_def cong: option.case_cong)

lemma process_sleep_data_char:
  assumes "cutoff_date now days_back = Inr c"
  shows "process_sleep_data now xroot days_back =
     (if \<forall>r \<in> set (findall xroot ''HKCategoryTypeIdentifierSleepAnalysis'').
            kept_sleep now days_back r \<longrightarrow> r_value r \<noteq> None
      then Inr (List.map_filter sleep_session_of
             (filter (kept_sleep now days_back)
                (findall xroot ''HKCategoryTypeIdentifierSleepAnalysis'')))
      else Inl AttributeError)"
  using assms by (simp add: process_sleep_data_def sleep_loop_char kept_sleep_cutoff [OF assms])

lemma process_sleep_data_stale:
  "process_sleep_data now (filter (\<lambda>r. \<not> stale now days_back r) xroot) days_back
     = process_sleep_data now xroot days_back"
proof (cases "cutoff_date now days_back")
  case (Inl e)
  then show ?thesis by (simp add: process_sleep_data_def)
next
  case (Inr c)
  then show ?thesis
    using sleep_loop_stale [of c "findall xroot ''HKCategoryTypeIdentifierSleepAnalysis''" "[]"]
    by (simp add: process_sleep_data_def findall_filter stale_cutoff [OF Inr])
qed


lemma process_heart_rate_data_char:
  assumes "cutoff_date now days_back = Inr c"
  shows "if \<forall>r \<in> set (findall xroot ''HKQuantityTypeIdentifierHeartRate'').
            kept_cardiac now days_back r \<longrightarrow> measurement_of flt r \<noteq> None
      then process_heart_rate_data flt now xroot days_back
             = Inr (List.map_filter (measurement_of flt)
                 (filter (kept_cardiac now days_back)
                    (findall xroot ''HKQuantityTypeIdentifierHeartRate'')))
      else (\<exists>e. process_heart_rate_data flt now xroot days_back = Inl e)"
  using measurement_loop_char [of "findall xroot ''HKQuantityTypeIdentifierHeartRate''" c flt "[]"]
  by (simp add: process_heart_rate_data_def assms kept_cardiac_cutoff [OF assms])

lemma process_resting_heart_rate_char:
  assumes "cutoff_date now days_back = Inr c"
  shows "if \<forall>r \<in> set (findall xroot ''HKQuantityTypeIdentifierRestingHeartRate'').
            kept_cardiac now days_back r \<longrightarrow> measurement_of flt r \<noteq> None
      then process_resting_heart_rate flt now xroot days_back
             = Inr (List.map_filter (measurement_of flt)
                 (filter (kept_cardiac now days_back)
                    (findall xroot ''HKQuantityTypeIdentifierRestingHeartRate'')))
      else (\<exists>e. process_resting_heart_rate flt now xroot days_back = Inl e)"
  using measurement_loop_char
          [of "findall xroot ''HKQuantityTypeIdentifierRestingHeartRate''" c flt "[]"]
  by (simp add: process_resting_heart_rate_def assms kept_cardiac_cutoff [OF assms])

lemma process_hrv_data_char:
  assumes "cutoff_date now days_back = Inr c"
  shows "if \<forall>r \<in> set (findall xroot ''HKQuantityTypeIdentifierHeartRateVariabilitySDNN'').
            kept_cardiac now days_back r \<longrightarrow> measurement_of flt r \<noteq> None
      then process_hrv_data flt now xroot days_back
             = Inr (List.map_filter (measurement_of flt)
                 (filter (kept_cardiac now days_back)
                    (findall xroot ''HKQuantityTypeIdentifierHeartRateVariabilitySDNN'')))
      else (\<exists>e. process_hrv_data flt now xroot days_back = Inl e)"
  using measurement_loop_char
          [of "findall xroot ''HKQuantityTypeIdentifierHeartRateVariabilitySDNN''" c flt "[]"]
  by (simp add: process_hrv_data_def assms kept_cardiac_cutoff [OF assms])

lemma measurement_extract_stale:
  "(case cutoff_date now days_back of
      Inl e \<Rightarrow> Inl e
    | Inr cutoff \<Rightarrow>
        measurement_loop flt cutoff
          (findall (filter (\<lambda>r. \<not> stale now days_back r) xroot) T) [])
   = (case cutoff_date now days_back of
        Inl e \<Rightarrow> Inl e
      | Inr cutoff \<Rightarrow> measurement_loop flt cutoff (findall xroot T) [])"
proof (cases "cutoff_date now days_back")
  case (Inl e)
  then show ?thesis by simp
next
  case (Inr c)
  then show ?thesis
    using measurement_loop_stale [of flt c "findall xroot T" "[]"]
    by (simp add: findall_filter stale_cutoff [OF Inr])
qed

lemma process_heart_rate_data_stale:
  "process_heart_rate_data flt now (filter (\<lambda>r. \<not> stale now days_back r) xroot) days_back
     = process_heart_rate_data flt now xroot days_back"
  unfolding process_heart_rate_data_def by (rule measurement_extract_stale)

lemma process_resting_heart_rate_stale:
  "process_resting_heart_rate flt now (filter (\<lambda>r. \<not> stale now days_back r) xroot) days_back
     = process_resting_heart_rate flt now xroot days_back"
  unfolding process_resting_heart_rate_def by (rule measurement_extract_stale)

lemma process_hrv_data_stale:
  "process_hrv_data flt now (filter (\<lambda>r. \<not> stale now days_back r) xroot) days_back
     = process_hrv_data flt now xroot days_back"
  unfolding process_hrv_data_def by (rule measurement_extract_stale)

lemma filter_stale_absorb:
  assumes "\<And>r. Q r \<Longrightarrow> stale now days r"
  shows "filter (\<lambda>r. \<not> stale now days r) (filter (\<lambda>r. \<not> Q r) xs)
           = filter (\<lambda>r. \<not> stale now days r) xs"
  using assms by (induction xs) auto

lemma process_sleep_data_drop:
  assumes "\<And>r. Q r \<Longrightarrow> stale now days r"
  shows "process_sleep_data now (filter (\<lambda>r. \<not> Q r) xroot) days
           = process_sleep_data now xroot days"
proof -
  have "process_sleep_data now (filter (\<lambda>r. \<not> Q r) xroot) days
          = process_sleep_data now
              (filter (\<lambda>r. \<not> stale now days r) (filter (\<lambda>r. \<not> Q r) xroot)) days"
    by (simp only: process_sleep_data_stale)
  also have "\<dots> = process_sleep_data now (filter (\<lambda>r. \<not> stale now days r) xroot) days"
    by (simp only: filter_stale_absorb [of Q, OF assms])
  also have "\<dots> = process_sleep_data now xroot days"
    by (rule process_sleep_data_stale)
  finally show ?thesis .
qed

lemma process_heart_rate_data_drop:
  assumes "\<And>r. Q r \<Longrightarrow> stale now days r"
  shows "process_heart_rate_data flt now (filter (\<lambda>r. \<not> Q r) xroot) days
           = process_heart_rate_data flt now xroot days"
proof -
  have "process_heart_rate_data flt now (filter (\<lambda>r. \<not> Q r) xroot) days
          = process_heart_rate_data flt now
              (filter (\<lambda>r. \<not> stale now days r) (filter (\<lambda>r. \<not> Q r) xroot)) days"
    by (simp only: process_heart_rate_data_stale)
  also have "\<dots> = process_heart_rate_data flt now
                      (filter (\<lambda>r. \<not> stale now days r) xroot) days"
    by (simp only: filter_stale_absorb [of Q, OF assms])
  also have "\<dots> = process_heart_rate_data flt now xroot days"
    by (rule process_heart_rate_data_stale)
  finally show ?thesis .
qed

lemma process_resting_heart_rate_drop:
  assumes "\<And>r. Q r \<Longrightarrow> stale now days r"
  shows "process_resting_heart_rate flt now (filter (\<lambda>r. \<not> Q r) xroot) days
           = process_resting_heart_rate flt now xroot days"
proof -
  have "process_resting_heart_rate flt now (filter (\<lambda>r. \<not> Q r) xroot) days
          = process_resting_heart_rate flt now
              (filter (\<lambda>r. \<not> stale now days r) (filter (\<lambda>r. \<not> Q r) xroot)) days"
    by (simp only: process_resting_heart_rate_stale)
  also have "\<dots> = process_resting_heart_rate flt now
                      (filter (\<lambda>r. \<not> stale now days r) xroot) days"
    by (simp only: filter_stale_absorb [of Q, OF assms])
  also have "\<dots> = process_resting_heart_rate flt now xroot days"
    by (rule process_resting_heart_rate_stale)
  finally show ?thesis .
qed

lemma process_hrv_data_drop:
  assumes "\<And>r. Q r \<Longrightarrow> stale now days r"
  shows "process_hrv_data flt now (filter (\<lambda>r. \<not> Q r) xroot) days
           = process_hrv_data flt now xroot days"
proof -
  have "process_hrv_data flt now (filter (\<lambda>r. \<not> Q r) xroot) days
          = process_hrv_data flt now
              (filter (\<lambda>r. \<not> stale now days r) (filter (\<lambda>r. \<not> Q r) xroot)) days"
    by (simp only: process_hrv_data_stale)
  also have "\<dots> = process_hrv_data flt now (filter (\<lambda>r. \<not> stale now days r) xroot) days"
    by (simp only: filter_stale_absorb [of Q, OF assms])
  also have "\<dots> = process_hrv_data flt now xroot days"
    by (rule process_hrv_data_stale)
  finally show ?thesis .
qed

lemma main_core_drop_stale:
  "main_core flt clock
     (filter (\<lambda>r. \<not> (stale (clock 0) days r \<and> stale (clock 1) days r
                      \<and> stale (clock 2) days r \<and> stale (clock 3) days r)) xroot) days
     = main_core flt clock xroot days"
proof -
  let ?Q = "\<lambda>r. stale (clock 0) days r \<and> stale (clock 1) days r
                 \<and> stale (clock 2) days r \<and> stale (clock 3) days r"
  have a: "process_sleep_data (clock 0) (filter (\<lambda>r. \<not> ?Q r) xroot) days
             = process_sleep_data (clock 0) xroot days"
    by (rule process_sleep_data_drop) simp
  have b: "process_heart_rate_data flt (clock 1) (filter (\<lambda>r. \<not> ?Q r) xroot) days
             = process_heart_rate_data flt (clock 1) xroot days"
    by (rule process_heart_rate_data_drop) simp
  have c: "process_resting_heart_rate flt (clock 2) (filter (\<lambda>r. \<not> ?Q r) xroot) days
             = process_resting_heart_rate flt (clock 2) xroot days"
    by (rule process_resting_heart_rate_drop) simp
  have d: "process_hrv_data flt (clock 3) (filter (\<lambda>r. \<not> ?Q r) xroot) days
             = process_hrv_data flt (clock 3) xroot days"
    by (rule process_hrv_data_drop) simp
  show ?thesis
    unfolding main_core_def a b c d ..
qed

text \<open>
  C2 (as amended). When \<open>now - days_back\<close> days is a representable datetime, an extractor
  keeps exactly the records of its type whose start (for a sleep record, also its end)
  parsed and whose start is within the window, provided every kept record has a usable
  value; a record whose start lies before the window can be removed from the document
  without changing what any extractor returns, and one that lies before the window of all
  four extractors without changing the rows of the run.
\<close>

theorem window_filter:
  assumes "cutoff_date now days_back = Inr c"
  shows "c = now - days_back * us_per_day
    \<and> ((\<forall>r \<in> set (findall xroot ''HKCategoryTypeIdentifierSleepAnalysis'').
            kept_sleep now days_back r \<longrightarrow> r_value r \<noteq> None) \<longrightarrow>
         process_sleep_data now xroot days_back
           = Inr (List.map_filter sleep_session_of
               (filter (kept_sleep now days_back)
                  (findall xroot ''HKCategoryTypeIdentifierSleepAnalysis''))))
    \<and> ((\<forall>r \<in> set (findall xroot ''HKQuantityTypeIdentifierHeartRate'').
            kept_cardiac now days_back r \<longrightarrow> measurement_of flt r \<noteq> None) \<longrightarrow>
         process_heart_rate_data flt now xroot days_back
           = Inr (List.map_filter (measurement_of flt)
               (filter (kept_cardiac now days_back)
                  (findall xroot ''HKQuantityTypeIdentifierHeartRate''))))
    \<and> ((\<forall>r \<in> set (findall xroot ''HKQuantityTypeIdentifierRestingHeartRate'').
            kept_cardiac now days_back r \<longrightarrow> measurement_of flt r \<noteq> None) \<longrightarrow>
         process_resting_heart_rate flt now xroot days_back
           = Inr (List.map_filter (measurement_of flt)
               (filter (kept_cardiac now days_back)
                  (findall xroot ''HKQuantityTypeIdentifierRestingHeartRate''))))
    \<and> ((\<forall>r \<in> set (findall xroot ''HKQuantityTypeIdentifierHeartRateVariabilitySDNN'').
            kept_cardiac now days_back r \<longrightarrow> measurement_of flt r \<noteq> None) \<longrightarrow>
         process_hrv_data flt now xroot days_back
           = Inr (List.map_filter (measurement_of flt)
               (filter (kept_cardiac now days_back)
                  (findall xroot ''HKQuantityTypeIdentifierHeartRateVariabilitySDNN''))))
    \<and> process_sleep_data now (filter (\<lambda>r. \<not> stale now days_back r) xroot) days_back
          = process_sleep_data now xroot days_back
    \<and> process_heart_rate_data flt now (filter (\<lambda>r. \<not> stale now days_back r) xroot) days_back
          = process_heart_rate_data flt now xroot days_back
    \<and> process_resting_heart_rate flt now (filter (\<lambda>r. \<not> stale now days_back r) xroot) days_back
          = process_resting_heart_rate flt now xroot days_back
    \<and> process_hrv_data flt now (filter (\<lambda>r. \<not> stale now days_back r) xroot) days_back
          = process_hrv_data flt now xroot days_back
    \<and> main_core flt clock
          (filter (\<lambda>r. \<not> (stale (clock 0) days_back r \<and> stale (clock 1) days_back r
                           \<and> stale (clock 2) days_back r \<and> stale (clock 3) days_back r))
             xroot) days_back
          = main_core flt clock xroot days_back"
proof (intro conjI impI)
  show "c = now - days_back * us_per_day"
    by (rule cutoff_date_Inr [OF assms])
next
  assume "\<forall>r \<in> set (findall xroot ''HKCategoryTypeIdentifierSleepAnalysis'').
            kept_sleep now days_back r \<longrightarrow> r_value r \<noteq> None"
  then show "process_sleep_data now xroot days_back
           = Inr (List.map_filter sleep_session_of
               (filter (kept_sleep now days_back)
                  (findall xroot ''HKCategoryTypeIdentifierSleepAnalysis'')))"
    by (simp add: process_sleep_data_char [OF assms])
next
  assume "\<forall>r \<in> set (findall xroot ''HKQuantityTypeIdentifierHeartRate'').
            kept_cardiac now days_back r \<longrightarrow> measurement_of flt r \<noteq> None"
  then show "process_heart_rate_data flt now xroot days_back
           = Inr (List.map_filter (measurement_of flt)
               (filter (kept_cardiac now days_back)
                  (findall xroot ''HKQuantityTypeIdentifierHeartRate'')))"
    using process_heart_rate_data_char [OF assms, of xroot flt] by simp
next
  assume "\<forall>r \<in> set (findall xroot ''HKQuantityTypeIdentifierRestingHeartRate'').
            kept_cardiac now days_back r \<longrightarrow> measurement_of flt r \<noteq> None"
  then show "process_resting_heart_rate flt now xroot days_back
           = Inr (List.map_filter (measurement_of flt)
               (filter (kept_cardiac now days_back)
                  (findall xroot ''HKQuantityTypeIdentifierRestingHeartRate'')))"
    using process_resting_heart_rate_char [OF assms, of xroot flt] by simp
next
  assume "\<forall>r \<in> set (findall xroot ''HKQuantityTypeIdentifierHeartRateVariabilitySDNN'').
            kept_cardiac now days_back r \<longrightarrow> measurement_of flt r \<noteq> None"
  then show "process_hrv_data flt now xroot days_back
           = Inr (List.map_filter (measurement_of flt)
               (filter (kept_cardiac now days_back)
                  (findall xroot ''HKQuantityTypeIdentifierHeartRateVariabilitySDNN'')))"
    using process_hrv_data_char [OF assms, of xroot flt] by simp
qed (rule process_sleep_data_stale process_heart_rate_data_stale
       process_resting_heart_rate_stale process_hrv_data_stale main_core_drop_stale)+

theorem window_filter_witness:
  "cutoff_date ex_now 30 = Inr 63837892800000000
   \<and> process_sleep_data ex_now ex_export 30
       = Inr [\<lparr> s_date = 738886, s_start_time = 63839746800, s_end_time = 63839752200,
                s_duration_minutes = 90, s_duration_hours = 3 / 2, s_type = ''Core'',
                s_source = ''Unknown'' \<rparr>]
   \<and> process_heart_rate_data float_decimal ex_now ex_export 30
       = Inr [\<lparr> m_datetime = 63839865600, m_date = 738888, m_value = 60, m_unit = None,
                m_source = ''Unknown'' \<rparr>]
   \<and> process_resting_heart_rate float_decimal ex_now ex_export 30
       = Inr [\<lparr> m_datetime = 63839869200, m_date = 738888, m_value = 55, m_unit = None,
                m_source = ''Unknown'' \<rparr>]
   \<and> process_hrv_data float_decimal ex_now ex_export 30
       = Inr [\<lparr> m_datetime = 63839871000, m_date = 738888, m_value = 83 / 2, m_unit = None,
                m_source = ''Unknown'' \<rparr>]"
proof -
  have c: "cutoff_date ex_now 30 = Inr 63837892800000000"
    by code_simp
  have v1: "\<forall>r \<in> set (findall ex_export ''HKCategoryTypeIdentifierSleepAnalysis'').
          kept_sleep ex_now 30 r \<longrightarrow> r_value r \<noteq> None"
    by code_simp
  have v2: "\<forall>r \<in> set (findall ex_export ''HKQuantityTypeIdentifierHeartRate'').
          kept_cardiac ex_now 30 r \<longrightarrow> measurement_of float_decimal r \<noteq> None"
    by code_simp
  have v3: "\<forall>r \<in> set (findall ex_export ''HKQuantityTypeIdentifierRestingHeartRate'').
          kept_cardiac ex_now 30 r \<longrightarrow> measurement_of float_decimal r \<noteq> None"
    by code_simp
  have v4: "\<forall>r \<in> set (findall ex_export ''HKQuantityTypeIdentifierHeartRateVariabilitySDNN'').
          kept_cardiac ex_now 30 r \<longrightarrow> measurement_of float_decimal r \<noteq> None"
    by code_simp
  have e1: "List.map_filter sleep_session_of
              (filter (kept_sleep ex_now 30)
                 (findall ex_export ''HKCategoryTypeIdentifierSleepAnalysis''))
       = [\<lparr> s_date = 738886, s_start_time = 63839746800, s_end_time = 63839752200,
            s_duration_minutes = 90, s_duration_hours = 3 / 2, s_type = ''Core'',
            s_source = ''Unknown'' \<rparr>]"
    by code_simp
  have e2: "List.map_filter (measurement_of float_decimal)
              (filter (kept_cardiac ex_now 30)
                 (findall ex_export ''HKQuantityTypeIdentifierHeartRate''))
       = [\<lparr> m_datetime = 63839865600, m_date = 738888, m_value = 60, m_unit = None,
            m_source = ''Unknown'' \<rparr>]"
    by code_simp
  have e3: "List.map_filter (measurement_of float_decimal)
              (filter (kept_cardiac ex_now 30)
                 (findall ex_export ''HKQuantityTypeIdentifierRestingHeartRate''))
       = [\<lparr> m_datetime = 63839869200, m_date = 738888, m_value = 55, m_unit = None,
            m_source = ''Unknown'' \<rparr>]"
    by code_simp
  have e4: "List.map_filter (measurement_of float_decimal)
              (filter (kept_cardiac ex_now 30)
                 (findall ex_export ''HKQuantityTypeIdentifierHeartRateVariabilitySDNN''))
       = [\<lparr> m_datetime = 63839871000, m_date = 738888, m_value = 83 / 2, m_unit = None,
            m_source = ''Unknown'' \<rparr>]"
    by code_simp
  show ?thesis
    using window_filter [OF c, of ex_export float_decimal] c v1 v2 v3 v4
    unfolding e1 e2 e3 e4 by blast
qed

text \<open>
  The claim as worded fails: a sleep record that starts within the window but whose end did
  not parse is dropped, and a look-back that reaches before year 1 raises
  \<^verbatim>\<open>OverflowError\<close>, so that no record is kept at all.
\<close>

theorem window_filter_counterexample:
  "is_within_window ex_now ex_now 30
   \<and> process_sleep_data ex_now
        [xml ''HKCategoryTypeIdentifierSleepAnalysis'' (Some ex_now) None
           (Some ''HKCategoryValueSleepAnalysisCore'')] 30 = Inr []
   \<and> is_within_window ex_now ex_now 1000000
   \<and> process_heart_rate_data float_decimal ex_now
        [xml ''HKQuantityTypeIdentifierHeartRate'' (Some ex_now) None (Some ''72'')] 1000000
       = Inl OverflowError"
  by code_simp

lemma py_float_measurement_of:
  "py_float flt (r_value r) = Inl err \<Longrightarrow> measurement_of flt r = None"
  by (simp add: measurement_of_def split: option.splits)

lemma measurement_loop_skip:
  "\<not> kept_cardiac c 0 r \<Longrightarrow>
     measurement_loop flt c (xs @ r # ys) acc = measurement_loop flt c (xs @ ys) acc"
proof (induction xs arbitrary: acc)
  case Nil
  then show ?case
    by (auto simp: kept_cardiac_def is_within_window_def split: option.splits)
next
  case (Cons x xs)
  then show ?case by (simp split: option.splits sum.splits)
qed

lemma measurement_extract_skip:
  assumes "\<not> kept_cardiac now days_back r"
  shows "(case cutoff_date now days_back of
      Inl e \<Rightarrow> Inl e
    | Inr cutoff \<Rightarrow> measurement_loop flt cutoff (findall (xs @ r # ys) T) [])
   = (case cutoff_date now days_back of
        Inl e \<Rightarrow> Inl e
      | Inr cutoff \<Rightarrow> measurement_loop flt cutoff (findall (xs @ ys) T) [])"
proof (cases "cutoff_date now days_back")
  case (Inl e)
  then show ?thesis by simp
next
  case (Inr c)
  have nk: "\<not> kept_cardiac c 0 r"
    using assms by (simp add: kept_cardiac_cutoff [OF Inr])
  show ?thesis
    using measurement_loop_skip [OF nk, of flt "findall xs T" "findall ys T" "[]"]
    by (simp add: Inr findall_def)
qed

lemma measurement_extract_abort:
  assumes "r \<in> set xroot" "r_type r = Some T" "kept_cardiac now days_back r"
    "py_float flt (r_value r) = Inl err"
  shows "\<exists>e. (case cutoff_date now days_back of
      Inl e \<Rightarrow> Inl e
    | Inr cutoff \<Rightarrow> measurement_loop flt cutoff (findall xroot T) []) = Inl e"
proof (cases "cutoff_date now days_back")
  case (Inl e)
  then show ?thesis by simp
next
  case (Inr c)
  have "r \<in> set (findall xroot T)"
    using assms by (simp add: findall_def)
  moreover have "kept_cardiac c 0 r"
    using assms by (simp add: kept_cardiac_cutoff [OF Inr])
  moreover have "measurement_of flt r = None"
    by (rule py_float_measurement_of [OF assms(4)])
  ultimately have "\<not> (\<forall>r \<in> set (findall xroot T).
      kept_cardiac c 0 r \<longrightarrow> measurement_of flt r \<noteq> None)"
    by blast
  with measurement_loop_char [of "findall xroot T" c flt "[]"] show ?thesis
    by (simp add: Inr)
qed

lemma main_core_abort:
  "(\<exists>e. process_heart_rate_data flt (clock 1) xroot days = Inl e)
   \<or> (\<exists>e. process_resting_heart_rate flt (clock 2) xroot days = Inl e)
   \<or> (\<exists>e. process_hrv_data flt (clock 3) xroot days = Inl e)
   \<Longrightarrow> \<exists>e. main_core flt clock xroot days = Inl e"
  by (auto simp: main_core_def split: sum.splits)

text \<open>
  C3 (as amended). A cardiac record within the window whose value is missing or not a number
  is not skipped: \<^verbatim>\<open>float\<close> raises out of the extractor, so the extractor and the whole run
  end in an exception and no row is produced. Only a record that is not kept (start
  unparsed or before the window) is passed over, its value never being read.
\<close>

theorem bad_value_aborts:
  assumes "r \<in> set xroot" and "py_float flt (r_value r) = Inl err"
  shows "(r_type r = Some ''HKQuantityTypeIdentifierHeartRate'' \<and> kept_cardiac now days r
            \<longrightarrow> (\<exists>e. process_heart_rate_data flt now xroot days = Inl e))
    \<and> (r_type r = Some ''HKQuantityTypeIdentifierRestingHeartRate'' \<and> kept_cardiac now days r
            \<longrightarrow> (\<exists>e. process_resting_heart_rate flt now xroot days = Inl e))
    \<and> (r_type r = Some ''HKQuantityTypeIdentifierHeartRateVariabilitySDNN''
          \<and> kept_cardiac now days r
            \<longrightarrow> (\<exists>e. process_hrv_data flt now xroot days = Inl e))
    \<and> (r_type r = Some ''HKQuantityTypeIdentifierHeartRate'' \<and> kept_cardiac (clock 1) days r
        \<or> r_type r = Some ''HKQuantityTypeIdentifierRestingHeartRate''
            \<and> kept_cardiac (clock 2) days r
        \<or> r_type r = Some ''HKQuantityTypeIdentifierHeartRateVariabilitySDNN''
            \<and> kept_cardiac (clock 3) days r
            \<longrightarrow> (\<exists>e. main_core flt clock xroot days = Inl e))
    \<and> (\<not> kept_cardiac now days r \<longrightarrow>
          process_heart_rate_data flt now (xs @ r # ys) days
            = process_heart_rate_data flt now (xs @ ys) days
          \<and> process_resting_heart_rate flt now (xs @ r # ys) days
            = process_resting_heart_rate flt now (xs @ ys) days
          \<and> process_hrv_data flt now (xs @ r # ys) days
            = process_hrv_data flt now (xs @ ys) days)"
proof -
  have A: "\<And>n. r_type r = Some ''HKQuantityTypeIdentifierHeartRate'' \<Longrightarrow> kept_cardiac n days r
      \<Longrightarrow> \<exists>e. process_heart_rate_data flt n xroot days = Inl e"
    unfolding process_heart_rate_data_def
    by (rule measurement_extract_abort [OF assms(1) _ _ assms(2)])
  have B: "\<And>n. r_type r = Some ''HKQuantityTypeIdentifierRestingHeartRate'' \<Longrightarrow>
      kept_cardiac n days r \<Longrightarrow> \<exists>e. process_resting_heart_rate flt n xroot days = Inl e"
    unfolding process_resting_heart_rate_def
    by (rule measurement_extract_abort [OF assms(1) _ _ assms(2)])
  have C: "\<And>n. r_type r = Some ''HKQuantityTypeIdentifierHeartRateVariabilitySDNN'' \<Longrightarrow>
      kept_cardiac n days r \<Longrightarrow> \<exists>e. process_hrv_data flt n xroot days = Inl e"
    unfolding process_hrv_data_def
    by (rule measurement_extract_abort [OF assms(1) _ _ assms(2)])
  have D: "r_type r = Some ''HKQuantityTypeIdentifierHeartRate'' \<and> kept_cardiac (clock 1) days r
        \<or> r_type r = Some ''HKQuantityTypeIdentifierRestingHeartRate''
            \<and> kept_cardiac (clock 2) days r
        \<or> r_type r = Some ''HKQuantityTypeIdentifierHeartRateVariabilitySDNN''
            \<and> kept_cardiac (clock 3) days r
        \<Longrightarrow> \<exists>e. main_core flt clock xroot days = Inl e"
    using A [of "clock 1"] B [of "clock 2"] C [of "clock 3"]
    by (intro main_core_abort) blast
  have E: "\<not> kept_cardiac now days r \<Longrightarrow>
          process_heart_rate_data flt now (xs @ r # ys) days
            = process_heart_rate_data flt now (xs @ ys) days
          \<and> process_resting_heart_rate flt now (xs @ r # ys) days
            = process_resting_heart_rate flt now (xs @ ys) days
          \<and> process_hrv_data flt now (xs @ r # ys) days
            = process_hrv_data flt now (xs @ ys) days"
    unfolding process_heart_rate_data_def process_resting_heart_rate_def process_hrv_data_def
    by (intro conjI measurement_extract_skip)
  show ?thesis
    using A [of now] B [of now] C [of now] D E by blast
qed

theorem bad_value_aborts_witness:
  "(\<exists>e. process_heart_rate_data float_decimal ex_now ex_corrupt 30 = Inl e)
   \<and> (\<exists>e. main_core float_decimal ex_clock_fixed ex_corrupt 30 = Inl e)
   \<and> process_heart_rate_data float_decimal ex_now
         ([] @ xml ''HKQuantityTypeIdentifierHeartRate'' None None (Some ''n/a'') # []) 30
       = process_heart_rate_data float_decimal ex_now ([] @ []) 30"
proof -
  let ?r = "xml ''HKQuantityTypeIdentifierHeartRate''
              (Some (mk_datetime 2024 1 3 8 5 0)) None (Some ''n/a'')"
  let ?q = "xml ''HKQuantityTypeIdentifierHeartRate'' None None (Some ''n/a'')"
  have m: "?r \<in> set ex_corrupt" by code_simp
  have p: "py_float float_decimal (r_value ?r) = Inl ValueError" by code_simp
  have t: "r_type ?r = Some ''HKQuantityTypeIdentifierHeartRate''" by code_simp
  have k: "kept_cardiac ex_now 30 ?r" by code_simp
  have k1: "kept_cardiac (ex_clock_fixed 1) 30 ?r" by code_simp
  have m': "?q \<in> set [?q]" by simp
  have p': "py_float float_decimal (r_value ?q) = Inl ValueError" by code_simp
  have k': "\<not> kept_cardiac ex_now 30 ?q" by code_simp
  show ?thesis
    using bad_value_aborts [OF m p, of ex_now 30 ex_clock_fixed]
      bad_value_aborts [OF m' p', of ex_now 30 _ "[]" "[]"] t k k1 k'
    by blast
qed

text \<open>
  The claim as worded fails: with one heart-rate value that is not a number between two
  good ones, and with a missing value, the extractor raises and the run yields no row.
\<close>

theorem bad_value_counterexample:
  "process_heart_rate_data float_decimal ex_now ex_corrupt 30 = Inl ValueError
   \<and> main_core float_decimal ex_clock_fixed ex_corrupt 30 = Inl ValueError
   \<and> process_heart_rate_data float_decimal ex_now
        [xml ''HKQuantityTypeIdentifierHeartRate'' (Some ex_now) None None] 30 = Inl TypeError"
  by code_simp

subsection \<open>The nightly sleep aggregator\<close>

lemma dd_get_update:
  "dd_get dflt k (AList.update k' v al) = (if k = k' then v else dd_get dflt k al)"
  by (simp add: dd_get_def update_conv')

lemma sleep_step_date:
  "sd_date (sleep_step x e) = (case sd_date e of None \<Rightarrow> Some (s_date x) | Some d \<Rightarrow> Some d)"
  by (simp add: sleep_step_def Let_def split: option.splits)

lemma sleep_step_bedtime:
  "sd_bedtime (sleep_step x e)
     = Some (case sd_bedtime e of None \<Rightarrow> start_of x | Some b \<Rightarrow> min (start_of x) b)"
  by (simp add: sleep_step_def Let_def start_of_def min_def split: option.splits)

lemma sleep_step_wake_time:
  "sd_wake_time (sleep_step x e)
     = Some (case sd_wake_time e of None \<Rightarrow> end_of x | Some w \<Rightarrow> max (end_of x) w)"
  by (simp add: sleep_step_def Let_def end_of_def max_def split: option.splits)

lemma sleep_step_in_bed:
  "total_in_bed_minutes (sleep_step x e)
     = total_in_bed_minutes e + (if s_type x \<in> set [''InBed''] then s_duration_minutes x else 0)"
  by (simp add: sleep_step_def Let_def split: option.splits)

lemma sleep_step_asleep:
  "total_asleep_minutes (sleep_step x e)
     = total_asleep_minutes e
       + (if s_type x \<in> set [''Asleep'', ''AsleepUnspecified''] then s_duration_minutes x else 0)"
  by (simp add: sleep_step_def Let_def split: option.splits)

lemma sleep_step_awake:
  "total_awake_minutes (sleep_step x e)
     = total_awake_minutes e + (if s_type x \<in> set [''Awake''] then s_duration_minutes x else 0)"
  by (simp add: sleep_step_def Let_def split: option.splits)

lemma sleep_step_core:
  "core_sleep_minutes (sleep_step x e)
     = core_sleep_minutes e
       + (if s_type x \<in> set [''Core'', ''AsleepCore''] then s_duration_minutes x else 0)"
  by (simp add: sleep_step_def Let_def split: option.splits)

lemma sleep_step_deep:
  "deep_sleep_minutes (sleep_step x e)
     = deep_sleep_minutes e
       + (if s_type x \<in> set [''Deep'', ''AsleepDeep''] then s_duration_minutes x else 0)"
  by (simp add: sleep_step_def Let_def split: option.splits)

lemma sleep_step_rem:
  "rem_sleep_minutes (sleep_step x e)
     = rem_sleep_minutes e
       + (if s_type x \<in> set [''REM'', ''AsleepREM''] then s_duration_minutes x else 0)"
  by (simp add: sleep_step_def Let_def split: option.splits)

lemma fold_stage_minutes:
  assumes "\<And>x e. f (sleep_step x e)
             = f e + (if s_type x \<in> set L then s_duration_minutes x else 0)"
  shows "f (fold sleep_step grp e) = f e + stage_minutes L grp"
proof (induction grp arbitrary: e)
  case Nil
  show ?case by (simp add: stage_minutes_def)
next
  case (Cons x grp)
  show ?case
    using Cons.IH [of "sleep_step x e"] assms [of x e] by (simp add: stage_minutes_def)
qed

lemma fold_date:
  assumes "grp \<noteq> []" "\<forall>x \<in> set grp. s_date x = d" "sd_date e = None \<or> sd_date e = Some d"
  shows "sd_date (fold sleep_step grp e) = Some d"
  using assms
proof (induction grp arbitrary: e)
  case Nil
  then show ?case by simp
next
  case (Cons x grp)
  have d: "sd_date (sleep_step x e) = Some d"
    using Cons.prems by (auto simp: sleep_step_date)
  show ?case
  proof (cases "grp = []")
    case True
    with d show ?thesis by simp
  next
    case False
    with Cons.IH [of "sleep_step x e"] Cons.prems d show ?thesis by simp
  qed
qed

lemma fold_bedtime:
  "sd_bedtime (fold sleep_step grp e)
     = (if grp = [] then sd_bedtime e
        else Some (Min (set (map start_of grp) \<union> set_option (sd_bedtime e))))"
proof (induction grp arbitrary: e)
  case Nil
  show ?case by simp
next
  case (Cons x grp)
  show ?case
  proof (cases "grp = []")
    case True
    then show ?thesis
      by (cases "sd_bedtime e") (simp_all add: sleep_step_bedtime)
  next
    case False
    have "sd_bedtime (fold sleep_step (x # grp) e)
            = Some (Min (set (map start_of grp) \<union> set_option (sd_bedtime (sleep_step x e))))"
      using Cons.IH [of "sleep_step x e"] False by simp
    also have "Min (set (map start_of grp) \<union> set_option (sd_bedtime (sleep_step x e)))
                 = Min (set (map start_of (x # grp)) \<union> set_option (sd_bedtime e))"
    proof (cases "sd_bedtime e")
      case None
      then show ?thesis by (simp add: sleep_step_bedtime insert_commute)
    next
      case (Some b)
      have "Min (insert (min (start_of x) b) (set (map start_of grp)))
              = Min (insert (start_of x) (insert b (set (map start_of grp))))"
        using False by (simp add: min.assoc)
      with Some show ?thesis by (simp add: sleep_step_bedtime insert_commute)
    qed
    finally show ?thesis by simp
  qed
qed

lemma fold_wake_time:
  "sd_wake_time (fold sleep_step grp e)
     = (if grp = [] then sd_wake_time e
        else Some (Max (set (map end_of grp) \<union> set_option (sd_wake_time e))))"
proof (induction grp arbitrary: e)
  case Nil
  show ?case by simp
next
  case (Cons x grp)
  show ?case
  proof (cases "grp = []")
    case True
    then show ?thesis
      by (cases "sd_wake_time e") (simp_all add: sleep_step_wake_time)
  next
    case False
    have "sd_wake_time (fold sleep_step (x # grp) e)
            = Some (Max (set (map end_of grp) \<union> set_option (sd_wake_time (sleep_step x e))))"
      using Cons.IH [of "sleep_step x e"] False by simp
    also have "Max (set (map end_of grp) \<union> set_option (sd_wake_time (sleep_step x e)))
                 = Max (set (map end_of (x # grp)) \<union> set_option (sd_wake_time e))"
    proof (cases "sd_wake_time e")
      case None
      then show ?thesis by (simp add: sleep_step_wake_time insert_commute)
    next
      case (Some b)
      have "Max (insert (max (end_of x) b) (set (map end_of grp)))
              = Max (insert (end_of x) (insert b (set (map end_of grp))))"
        using False by (simp add: max.assoc)
      with Some show ?thesis by (simp add: sleep_step_wake_time insert_commute)
    qed
    finally show ?thesis by simp
  qed
qed

lemma sleep_days_lookup:
  "map_of (sleep_days ss al) d
     = (if d \<in> s_date ` set ss
        then Some (fold sleep_step (night d ss) (dd_get new_sleep_day d al))
        else map_of al d)"
proof (induction ss arbitrary: al)
  case Nil
  show ?case by simp
next
  case (Cons x ss)
  let ?al = "AList.update (s_date x) (sleep_step x (dd_get new_sleep_day (s_date x) al)) al"
  have "map_of (sleep_days (x # ss) al) d = map_of (sleep_days ss ?al) d"
    by simp
  also have "\<dots> = (if d \<in> s_date ` set ss
        then Some (fold sleep_step (night d ss) (dd_get new_sleep_day d ?al))
        else map_of ?al d)"
    by (rule Cons.IH)
  also have "\<dots> = (if d \<in> s_date ` set (x # ss)
        then Some (fold sleep_step (night d (x # ss)) (dd_get new_sleep_day d al))
        else map_of al d)"
  proof (cases "d = s_date x")
    case True
    show ?thesis
    proof (cases "d \<in> s_date ` set ss")
      case False
      then have "night d ss = []"
        by (auto simp: night_def filter_empty_conv)
      with True False show ?thesis
        by (simp add: dd_get_update night_def update_conv')
    next
      case yes: True
      with True show ?thesis by (simp add: dd_get_update night_def)
    qed
  next
    case False
    then show ?thesis by (auto simp: dd_get_update night_def update_conv')
  qed
  finally show ?case .
qed

lemma sleep_days_keys: "fst ` set (sleep_days ss al) = s_date ` set ss \<union> fst ` set al"
  by (induction ss arbitrary: al) (auto simp: dom_update)

lemma sleep_days_distinct:
  "distinct (map fst al) \<Longrightarrow> distinct (map fst (sleep_days ss al))"
  by (induction ss arbitrary: al) (auto simp: distinct_update)

lemma format_days_ok:
  "\<forall>(k, e) \<in> set al. sd_date e = Some k \<Longrightarrow>
     format_days (map snd al) = Inr (map (\<lambda>(k, e). format_day k e) al)"
  by (induction al) auto

lemma sleep_days_entry:
  assumes "(k, e) \<in> set (sleep_days ss [])"
  shows "k \<in> s_date ` set ss \<and> e = fold sleep_step (night k ss) new_sleep_day"
proof -
  have k: "k \<in> s_date ` set ss"
    using assms sleep_days_keys [of ss "[]"] by force
  have "distinct (map fst (sleep_days ss []))"
    by (rule sleep_days_distinct) simp
  then have "map_of (sleep_days ss []) k = Some e"
    using assms by simp
  with k show ?thesis
    by (simp add: sleep_days_lookup dd_get_def)
qed

lemma night_nonempty: "d \<in> s_date ` set ss \<Longrightarrow> night d ss \<noteq> []"
  by (auto simp: night_def filter_empty_conv)

lemma night_dates: "\<forall>x \<in> set (night d ss). s_date x = d"
  by (simp add: night_def)

lemma sleep_days_dated: "\<forall>(k, e) \<in> set (sleep_days ss []). sd_date e = Some k"
proof (clarify)
  fix k e assume "(k, e) \<in> set (sleep_days ss [])"
  then have k: "k \<in> s_date ` set ss" and e: "e = fold sleep_step (night k ss) new_sleep_day"
    using sleep_days_entry by blast+
  show "sd_date e = Some k"
    unfolding e
    by (rule fold_date [OF night_nonempty [OF k] night_dates]) (simp add: new_sleep_day_def)
qed

lemma aggregate_daily_sleep_result:
  "aggregate_daily_sleep ss
     = Inr (sort_key ss_date (map (\<lambda>(k, e). format_day k e) (sleep_days ss [])))"
  by (simp add: aggregate_daily_sleep_def format_days_ok [OF sleep_days_dated])

lemma ss_date_format_day: "ss_date (format_day d e) = d"
  by (simp add: format_day_def)



lemma aggregate_daily_sleep_member:
  assumes "aggregate_daily_sleep ss = Inr out"
  shows "s \<in> set out \<longleftrightarrow>
     (\<exists>d \<in> s_date ` set ss. s = format_day d (fold sleep_step (night d ss) new_sleep_day))"
proof -
  have out: "set out = (\<lambda>(k, e). format_day k e) ` set (sleep_days ss [])"
    using assms by (auto simp: aggregate_daily_sleep_result)
  show ?thesis
  proof
    assume "s \<in> set out"
    then obtain k e where ke: "(k, e) \<in> set (sleep_days ss [])" and s: "s = format_day k e"
      unfolding out by auto
    from sleep_days_entry [OF ke] s show
      "\<exists>d \<in> s_date ` set ss. s = format_day d (fold sleep_step (night d ss) new_sleep_day)"
      by blast
  next
    assume "\<exists>d \<in> s_date ` set ss. s = format_day d (fold sleep_step (night d ss) new_sleep_day)"
    then obtain d where d: "d \<in> s_date ` set ss"
      and s: "s = format_day d (fold sleep_step (night d ss) new_sleep_day)"
      by blast
    have "map_of (sleep_days ss []) d = Some (fold sleep_step (night d ss) new_sleep_day)"
      using d by (simp add: sleep_days_lookup dd_get_def)
    then have "(d, fold sleep_step (night d ss) new_sleep_day) \<in> set (sleep_days ss [])"
      by (rule map_of_SomeD)
    then show "s \<in> set out"
      unfolding out s by force
  qed
qed

lemma night_summary_fields:
  assumes "night d ss \<noteq> []"
  defines "s \<equiv> format_day d (fold sleep_step (night d ss) new_sleep_day)"
  shows "ss_date s = d"
    and "bedtime s = strftime_HM (Min (set (map start_of (night d ss))))"
    and "wake_time s = strftime_HM (Max (set (map end_of (night d ss))))"
    and "time_in_bed_hours s = py_round (stage_minutes [''InBed''] (night d ss) / 60) 2"
    and "total_sleep_hours s
           = py_round ((stage_minutes [''Asleep'', ''AsleepUnspecified''] (night d ss)
                        + stage_minutes [''Core'', ''AsleepCore''] (night d ss)
                        + stage_minutes [''Deep'', ''AsleepDeep''] (night d ss)
                        + stage_minutes [''REM'', ''AsleepREM''] (night d ss)) / 60) 2"
    and "awake_minutes s = py_round (stage_minutes [''Awake''] (night d ss)) 1"
    and "core_sleep_hours s
           = py_round (stage_minutes [''Core'', ''AsleepCore''] (night d ss) / 60) 2"
    and "deep_sleep_hours s
           = py_round (stage_minutes [''Deep'', ''AsleepDeep''] (night d ss) / 60) 2"
    and "rem_sleep_hours s
           = py_round (stage_minutes [''REM'', ''AsleepREM''] (night d ss) / 60) 2"
proof -
  let ?e = "fold sleep_step (night d ss) new_sleep_day"
  have z: "total_in_bed_minutes new_sleep_day = 0" "total_asleep_minutes new_sleep_day = 0"
    "total_awake_minutes new_sleep_day = 0" "core_sleep_minutes new_sleep_day = 0"
    "deep_sleep_minutes new_sleep_day = 0" "rem_sleep_minutes new_sleep_day = 0"
    "sd_bedtime new_sleep_day = None" "sd_wake_time new_sleep_day = None"
    by (simp_all add: new_sleep_day_def)
  have t1: "total_in_bed_minutes ?e = stage_minutes [''InBed''] (night d ss)"
    using fold_stage_minutes [of total_in_bed_minutes "[''InBed'']", OF sleep_step_in_bed]
    by (simp add: z)
  have t2: "total_asleep_minutes ?e
              = stage_minutes [''Asleep'', ''AsleepUnspecified''] (night d ss)"
    using fold_stage_minutes [of total_asleep_minutes "[''Asleep'', ''AsleepUnspecified'']",
        OF sleep_step_asleep]
    by (simp add: z)
  have t3: "total_awake_minutes ?e = stage_minutes [''Awake''] (night d ss)"
    using fold_stage_minutes [of total_awake_minutes "[''Awake'']", OF sleep_step_awake]
    by (simp add: z)
  have t4: "core_sleep_minutes ?e = stage_minutes [''Core'', ''AsleepCore''] (night d ss)"
    using fold_stage_minutes [of core_sleep_minutes "[''Core'', ''AsleepCore'']",
        OF sleep_step_core]
    by (simp add: z)
  have t5: "deep_sleep_minutes ?e = stage_minutes [''Deep'', ''AsleepDeep''] (night d ss)"
    using fold_stage_minutes [of deep_sleep_minutes "[''Deep'', ''AsleepDeep'']",
        OF sleep_step_deep]
    by (simp add: z)
  have t6: "rem_sleep_minutes ?e = stage_minutes [''REM'', ''AsleepREM''] (night d ss)"
    using fold_stage_minutes [of rem_sleep_minutes "[''REM'', ''AsleepREM'']",
        OF sleep_step_rem]
    by (simp add: z)
  have b: "sd_bedtime ?e = Some (Min (set (map start_of (night d ss))))"
    using assms(1) by (simp add: fold_bedtime z)
  have w: "sd_wake_time ?e = Some (Max (set (map end_of (night d ss))))"
    using assms(1) by (simp add: fold_wake_time z)
  show "ss_date s = d" by (simp add: s_def format_day_def)
  show "bedtime s = strftime_HM (Min (set (map start_of (night d ss))))"
    by (simp add: s_def format_day_def b)
  show "wake_time s = strftime_HM (Max (set (map end_of (night d ss))))"
    by (simp add: s_def format_day_def w)
  show "time_in_bed_hours s = py_round (stage_minutes [''InBed''] (night d ss) / 60) 2"
    by (simp add: s_def format_day_def t1)
  show "total_sleep_hours s
           = py_round ((stage_minutes [''Asleep'', ''AsleepUnspecified''] (night d ss)
                        + stage_minutes [''Core'', ''AsleepCore''] (night d ss)
                        + stage_minutes [''Deep'', ''AsleepDeep''] (night d ss)
                        + stage_minutes [''REM'', ''AsleepREM''] (night d ss)) / 60) 2"
    by (simp add: s_def format_day_def t2 t4 t5 t6)
  show "awake_minutes s = py_round (stage_minutes [''Awake''] (night d ss)) 1"
    by (simp add: s_def format_day_def t3)
  show "core_sleep_hours s
           = py_round (stage_minutes [''Core'', ''AsleepCore''] (night d ss) / 60) 2"
    by (simp add: s_def format_day_def t4)
  show "deep_sleep_hours s
           = py_round (stage_minutes [''Deep'', ''AsleepDeep''] (night d ss) / 60) 2"
    by (simp add: s_def format_day_def t5)
  show "rem_sleep_hours s
           = py_round (stage_minutes [''REM'', ''AsleepREM''] (night d ss) / 60) 2"
    by (simp add: s_def format_day_def t6)
qed

lemma summary_night:
  assumes "aggregate_daily_sleep ss = Inr out" "s \<in> set out"
  shows "night (ss_date s) ss \<noteq> []
    \<and> s = format_day (ss_date s) (fold sleep_step (night (ss_date s) ss) new_sleep_day)"
proof -
  obtain d where d: "d \<in> s_date ` set ss"
    and s: "s = format_day d (fold sleep_step (night d ss) new_sleep_day)"
    using aggregate_daily_sleep_member [OF assms(1), of s] assms(2) by blast
  have "ss_date s = d" by (simp add: s ss_date_format_day)
  with d s night_nonempty [OF d] show ?thesis by simp
qed

lemma set_map_filter_iff:
  "y \<in> set (List.map_filter f xs) \<longleftrightarrow> (\<exists>x \<in> set xs. f x = Some y)"
  by (induction xs) (auto split: option.splits)

lemma process_sleep_data_sessions:
  assumes "process_sleep_data now xroot days = Inr sessions"
  shows "sessions = List.map_filter sleep_session_of
           (filter (kept_sleep now days) (findall xroot ''HKCategoryTypeIdentifierSleepAnalysis''))"
proof (cases "cutoff_date now days")
  case (Inl e)
  with assms show ?thesis by (simp add: process_sleep_data_def)
next
  case (Inr c)
  from assms show ?thesis
    by (simp add: process_sleep_data_char [OF Inr] split: if_splits)
qed

lemma extracted_session_origin:
  assumes "process_sleep_data now xroot days = Inr sessions" "x \<in> set sessions"
  shows "\<exists>r \<in> set xroot. \<exists>s e v. r_startDate r = Some s \<and> r_endDate r = Some e
           \<and> r_value r = Some v \<and> kept_sleep now days r \<and> x = new_session s e v (get_source r)"
proof -
  from assms obtain r where r: "r \<in> set xroot" "kept_sleep now days r"
      "sleep_session_of r = Some x"
    unfolding process_sleep_data_sessions [OF assms(1)] set_map_filter_iff findall_def by auto
  from r(3) obtain s e v where "r_startDate r = Some s" "r_endDate r = Some e"
      "r_value r = Some v" "x = new_session s e v (get_source r)"
    by (auto simp: sleep_session_of_def split: option.splits)
  with r show ?thesis by blast
qed

lemma new_session_fields:
  "s_date (new_session s e v src) = date_of s"
  "s_start_time (new_session s e v src) = strftime_full s"
  "s_end_time (new_session s e v src) = strftime_full e"
  "s_duration_minutes (new_session s e v src) = py_round (duration_of s e) 2"
  "s_type (new_session s e v src) = str_remove ''HKCategoryValueSleepAnalysis'' v"
  by (simp_all add: new_session_def Let_def)

lemma totals_of_fold:
  "stage_totals (format_day d (fold sleep_step grp new_sleep_day))
     = (py_round (stage_minutes [''InBed''] grp / 60) 2,
        py_round ((stage_minutes [''Asleep'', ''AsleepUnspecified''] grp
                   + stage_minutes [''Core'', ''AsleepCore''] grp
                   + stage_minutes [''Deep'', ''AsleepDeep''] grp
                   + stage_minutes [''REM'', ''AsleepREM''] grp) / 60) 2,
        py_round (stage_minutes [''Awake''] grp) 1,
        py_round (stage_minutes [''Core'', ''AsleepCore''] grp / 60) 2,
        py_round (stage_minutes [''Deep'', ''AsleepDeep''] grp / 60) 2,
        py_round (stage_minutes [''REM'', ''AsleepREM''] grp / 60) 2)"
proof -
  let ?e = "fold sleep_step grp new_sleep_day"
  have z: "total_in_bed_minutes new_sleep_day = 0" "total_asleep_minutes new_sleep_day = 0"
    "total_awake_minutes new_sleep_day = 0" "core_sleep_minutes new_sleep_day = 0"
    "deep_sleep_minutes new_sleep_day = 0" "rem_sleep_minutes new_sleep_day = 0"
    by (simp_all add: new_sleep_day_def)
  have t1: "total_in_bed_minutes ?e = stage_minutes [''InBed''] grp"
    using fold_stage_minutes [of total_in_bed_minutes "[''InBed'']", OF sleep_step_in_bed]
    by (simp add: z)
  have t2: "total_asleep_minutes ?e = stage_minutes [''Asleep'', ''AsleepUnspecified''] grp"
    using fold_stage_minutes [of total_asleep_minutes "[''Asleep'', ''AsleepUnspecified'']",
        OF sleep_step_asleep]
    by (simp add: z)
  have t3: "total_awake_minutes ?e = stage_minutes [''Awake''] grp"
    using fold_stage_minutes [of total_awake_minutes "[''Awake'']", OF sleep_step_awake]
    by (simp add: z)
  have t4: "core_sleep_minutes ?e = stage_minutes [''Core'', ''AsleepCore''] grp"
    using fold_stage_minutes [of core_sleep_minutes "[''Core'', ''AsleepCore'']",
        OF sleep_step_core]
    by (simp add: z)
  have t5: "deep_sleep_minutes ?e = stage_minutes [''Deep'', ''AsleepDeep''] grp"
    using fold_stage_minutes [of deep_sleep_minutes "[''Deep'', ''AsleepDeep'']",
        OF sleep_step_deep]
    by (simp add: z)
  have t6: "rem_sleep_minutes ?e = stage_minutes [''REM'', ''AsleepREM''] grp"
    using fold_stage_minutes [of rem_sleep_minutes "[''REM'', ''AsleepREM'']",
        OF sleep_step_rem]
    by (simp add: z)
  show ?thesis
    by (simp add: stage_totals_def format_day_def t1 t2 t3 t4 t5 t6)
qed

lemma stage_minutes_recognized:
  assumes "\<forall>t \<in> set L. recognized t"
  shows "stage_minutes L (filter (\<lambda>x. recognized (s_type x)) grp) = stage_minutes L grp"
proof -
  have "filter (\<lambda>x. s_type x \<in> set L) (filter (\<lambda>x. recognized (s_type x)) grp)
          = filter (\<lambda>x. s_type x \<in> set L) grp"
    using assms by (induction grp) auto
  then show ?thesis by (simp only: stage_minutes_def)
qed

lemma stage_totals_recognized:
  "stage_totals (format_day d
       (fold sleep_step (filter (\<lambda>x. recognized (s_type x)) grp) new_sleep_day))
     = stage_totals (format_day d (fold sleep_step grp new_sleep_day))"
proof -
  have r: "\<forall>t \<in> set [''InBed'']. recognized t"
    "\<forall>t \<in> set [''Asleep'', ''AsleepUnspecified'']. recognized t"
    "\<forall>t \<in> set [''Awake'']. recognized t"
    "\<forall>t \<in> set [''Core'', ''AsleepCore'']. recognized t"
    "\<forall>t \<in> set [''Deep'', ''AsleepDeep'']. recognized t"
    "\<forall>t \<in> set [''REM'', ''AsleepREM'']. recognized t"
    by (simp_all add: recognized_def)
  show ?thesis
    by (simp only: totals_of_fold r [THEN stage_minutes_recognized])
qed




text \<open>
  C6 (as amended). For every night the aggregator returns, \<open>bedtime\<close> is the time of day
  of the earliest start and \<open>wake_time\<close> the time of day of the latest end among the
  night's sessions; every extracted session carries the calendar date of its start. The two
  sessions 23:00 to 00:30 (Core) and 00:30 to 06:30 (Deep) aggregate to bedtime 23:00,
  wake time 06:30, 1.5 h core, 6.0 h deep and 7.5 h in total when both carry the night date
  2024-01-01.
\<close>

theorem bedtime_wake_time:
  "(\<exists>out. aggregate_daily_sleep ss = Inr out
      \<and> (\<forall>s \<in> set out.
            bedtime s = strftime_HM (Min (set (map start_of (night (ss_date s) ss))))
            \<and> wake_time s = strftime_HM (Max (set (map end_of (night (ss_date s) ss))))))
   \<and> (process_sleep_data now xroot days = Inr sessions \<longrightarrow>
        (\<forall>x \<in> set sessions. \<exists>r \<in> set xroot. \<exists>s e.
            r_startDate r = Some s \<and> r_endDate r = Some e \<and> s_date x = date_of s
            \<and> s_start_time x = strftime_full s \<and> s_end_time x = strftime_full e))
   \<and> aggregate_daily_sleep ex_night
       = Inr [\<lparr> ss_date = ymd2ord 2024 1 1, bedtime = ''23:00'', wake_time = ''06:30'',
                time_in_bed_hours = 0, total_sleep_hours = 15 / 2, awake_minutes = 0,
                core_sleep_hours = 3 / 2, deep_sleep_hours = 6, rem_sleep_hours = 0 \<rparr>]"
proof (intro conjI impI)
  obtain out where out: "aggregate_daily_sleep ss = Inr out"
    by (simp add: aggregate_daily_sleep_result)
  have "\<forall>s \<in> set out.
            bedtime s = strftime_HM (Min (set (map start_of (night (ss_date s) ss))))
            \<and> wake_time s = strftime_HM (Max (set (map end_of (night (ss_date s) ss))))"
  proof
    fix s assume "s \<in> set out"
    from summary_night [OF out this]
    have n: "night (ss_date s) ss \<noteq> []"
      and s: "s = format_day (ss_date s) (fold sleep_step (night (ss_date s) ss) new_sleep_day)"
      by blast+
    have "bedtime s = strftime_HM (Min (set (map start_of (night (ss_date s) ss))))"
      by (subst s) (rule night_summary_fields(2) [OF n])
    moreover have "wake_time s = strftime_HM (Max (set (map end_of (night (ss_date s) ss))))"
      by (subst s) (rule night_summary_fields(3) [OF n])
    ultimately show "bedtime s = strftime_HM (Min (set (map start_of (night (ss_date s) ss))))
            \<and> wake_time s = strftime_HM (Max (set (map end_of (night (ss_date s) ss))))"
      by blast
  qed
  with out show "\<exists>out. aggregate_daily_sleep ss = Inr out
      \<and> (\<forall>s \<in> set out.
            bedtime s = strftime_HM (Min (set (map start_of (night (ss_date s) ss))))
            \<and> wake_time s = strftime_HM (Max (set (map end_of (night (ss_date s) ss)))))"
    by blast
next
  assume p: "process_sleep_data now xroot days = Inr sessions"
  show "\<forall>x \<in> set sessions. \<exists>r \<in> set xroot. \<exists>s e.
            r_startDate r = Some s \<and> r_endDate r = Some e \<and> s_date x = date_of s
            \<and> s_start_time x = strftime_full s \<and> s_end_time x = strftime_full e"
  proof
    fix x assume "x \<in> set sessions"
    from extracted_session_origin [OF p this] obtain r s e v where
      r: "r \<in> set xroot" "r_startDate r = Some s" "r_endDate r = Some e"
        and x: "x = new_session s e v (get_source r)"
      by blast
    have "s_date x = date_of s \<and> s_start_time x = strftime_full s
            \<and> s_end_time x = strftime_full e"
      by (simp add: x new_session_fields)
    with r show "\<exists>r \<in> set xroot. \<exists>s e.
            r_startDate r = Some s \<and> r_endDate r = Some e \<and> s_date x = date_of s
            \<and> s_start_time x = strftime_full s \<and> s_end_time x = strftime_full e"
      by blast
  qed
next
  show "aggregate_daily_sleep ex_night
       = Inr [\<lparr> ss_date = ymd2ord 2024 1 1, bedtime = ''23:00'', wake_time = ''06:30'',
                time_in_bed_hours = 0, total_sleep_hours = 15 / 2, awake_minutes = 0,
                core_sleep_hours = 3 / 2, deep_sleep_hours = 6, rem_sleep_hours = 0 \<rparr>]"
    by code_simp
qed

theorem bedtime_wake_time_witness:
  "process_sleep_data ex_now ex_scenario 30
     = Inr [new_session (mk_datetime 2024 1 1 23 0 0) (mk_datetime 2024 1 2 0 30 0)
              ''HKCategoryValueSleepAnalysisCore'' ''Unknown'',
            new_session (mk_datetime 2024 1 2 0 30 0) (mk_datetime 2024 1 2 6 30 0)
              ''HKCategoryValueSleepAnalysisDeep'' ''Unknown'']
   \<and> (\<exists>r \<in> set ex_scenario. \<exists>s e. r_startDate r = Some s \<and> r_endDate r = Some e
         \<and> s_date (new_session (mk_datetime 2024 1 2 0 30 0) (mk_datetime 2024 1 2 6 30 0)
                     ''HKCategoryValueSleepAnalysisDeep'' ''Unknown'') = date_of s
         \<and> date_of s = ymd2ord 2024 1 2)
   \<and> aggregate_daily_sleep ex_night = Inr [ex_sleep]
   \<and> bedtime ex_sleep = strftime_HM (Min (set (map start_of (night 738886 ex_night))))
   \<and> wake_time ex_sleep = strftime_HM (Max (set (map end_of (night 738886 ex_night))))"
proof -
  let ?a = "new_session (mk_datetime 2024 1 1 23 0 0) (mk_datetime 2024 1 2 0 30 0)
              ''HKCategoryValueSleepAnalysisCore'' ''Unknown''"
  let ?b = "new_session (mk_datetime 2024 1 2 0 30 0) (mk_datetime 2024 1 2 6 30 0)
              ''HKCategoryValueSleepAnalysisDeep'' ''Unknown''"
  have p: "process_sleep_data ex_now ex_scenario 30 = Inr [?a, ?b]" by code_simp
  have a: "aggregate_daily_sleep ex_night = Inr [ex_sleep]" by code_simp
  have d: "ss_date ex_sleep = 738886" by (simp add: ex_sleep_def)
  have b: "s_date ?b = ymd2ord 2024 1 2" by code_simp
  note T = bedtime_wake_time [of ex_night ex_now ex_scenario 30 "[?a, ?b]"]
  from T p have "\<exists>r \<in> set ex_scenario. \<exists>s e. r_startDate r = Some s \<and> r_endDate r = Some e
         \<and> s_date ?b = date_of s" by auto
  then have 1: "\<exists>r \<in> set ex_scenario. \<exists>s e. r_startDate r = Some s \<and> r_endDate r = Some e
         \<and> s_date ?b = date_of s \<and> date_of s = ymd2ord 2024 1 2"
    using b by metis
  from T a d have 2: "bedtime ex_sleep = strftime_HM (Min (set (map start_of (night 738886 ex_night))))"
    "wake_time ex_sleep = strftime_HM (Max (set (map end_of (night 738886 ex_night))))"
    by auto
  show ?thesis using p a 1 2 by blast
qed

text \<open>
  As the extractor dates them, the two sessions of the scenario do not share a night: the
  second starts at 00:30 on 2024-01-02 and is filed under that date, so the run yields two
  summaries (23:00 to 00:30 with 1.5 h, and 00:30 to 06:30 with 6.0 h).
\<close>

theorem scenario_counterexample:
  "process_sleep_data ex_now ex_scenario 30
     = Inr [\<lparr> s_date = 738886, s_start_time = 63839746800, s_end_time = 63839752200,
              s_duration_minutes = 90, s_duration_hours = 3 / 2, s_type = ''Core'',
              s_source = ''Unknown'' \<rparr>,
            \<lparr> s_date = 738887, s_start_time = 63839752200, s_end_time = 63839773800,
              s_duration_minutes = 360, s_duration_hours = 6, s_type = ''Deep'',
              s_source = ''Unknown'' \<rparr>]
   \<and> aggregate_daily_sleep
        [\<lparr> s_date = 738886, s_start_time = 63839746800, s_end_time = 63839752200,
              s_duration_minutes = 90, s_duration_hours = 3 / 2, s_type = ''Core'',
              s_source = ''Unknown'' \<rparr>,
         \<lparr> s_date = 738887, s_start_time = 63839752200, s_end_time = 63839773800,
              s_duration_minutes = 360, s_duration_hours = 6, s_type = ''Deep'',
              s_source = ''Unknown'' \<rparr>]
     = Inr [\<lparr> ss_date = 738886, bedtime = ''23:00'', wake_time = ''00:30'',
              time_in_bed_hours = 0, total_sleep_hours = 3 / 2, awake_minutes = 0,
              core_sleep_hours = 3 / 2, deep_sleep_hours = 0, rem_sleep_hours = 0 \<rparr>,
            \<lparr> ss_date = 738887, bedtime = ''00:30'', wake_time = ''06:30'',
              time_in_bed_hours = 0, total_sleep_hours = 6, awake_minutes = 0,
              core_sleep_hours = 0, deep_sleep_hours = 6, rem_sleep_hours = 0 \<rparr>]
   \<and> ymd2ord 2024 1 1 = 738886 \<and> ymd2ord 2024 1 2 = 738887"
  by code_simp

lemma stage_minutes_without:
  assumes "s_type u \<notin> set L"
  shows "stage_minutes L (filter (\<lambda>x. x \<noteq> u) grp) = stage_minutes L grp"
proof -
  have "filter (\<lambda>x. s_type x \<in> set L) (filter (\<lambda>x. x \<noteq> u) grp)
          = filter (\<lambda>x. s_type x \<in> set L) grp"
    using assms by (induction grp) auto
  then show ?thesis by (simp only: stage_minutes_def)
qed

lemma stage_totals_without:
  assumes "\<not> recognized (s_type u)"
  shows "stage_totals (format_day d (fold sleep_step (filter (\<lambda>x. x \<noteq> u) grp) new_sleep_day))
     = stage_totals (format_day d (fold sleep_step grp new_sleep_day))"
proof -
  have r: "s_type u \<notin> set [''InBed'']"
    "s_type u \<notin> set [''Asleep'', ''AsleepUnspecified'']"
    "s_type u \<notin> set [''Awake'']"
    "s_type u \<notin> set [''Core'', ''AsleepCore'']"
    "s_type u \<notin> set [''Deep'', ''AsleepDeep'']"
    "s_type u \<notin> set [''REM'', ''AsleepREM'']"
    using assms by (auto simp: recognized_def)
  show ?thesis
    by (simp only: totals_of_fold r [THEN stage_minutes_without])
qed

text \<open>
  C10. A session whose label the aggregator does not recognise still belongs to its night:
  the night's summary exists, its bedtime and wake time are the minimum start and maximum
  end over all sessions of the night, that session included (so its start bounds the
  minimum and its end the maximum), while the six stage totals are what they would be
  without it.
\<close>

theorem unrecognized_session_bounds:
  assumes "u \<in> set ss" and "\<not> recognized (s_type u)"
  shows "\<exists>out s. aggregate_daily_sleep ss = Inr out \<and> s \<in> set out \<and> ss_date s = s_date u
     \<and> u \<in> set (night (s_date u) ss)
     \<and> bedtime s = strftime_HM (Min (set (map start_of (night (s_date u) ss))))
     \<and> wake_time s = strftime_HM (Max (set (map end_of (night (s_date u) ss))))
     \<and> Min (set (map start_of (night (s_date u) ss))) \<le> start_of u
     \<and> end_of u \<le> Max (set (map end_of (night (s_date u) ss)))
     \<and> stage_totals s
         = stage_totals (format_day (s_date u)
             (fold sleep_step (filter (\<lambda>x. x \<noteq> u) (night (s_date u) ss)) new_sleep_day))"
proof -
  let ?d = "s_date u"
  let ?s = "format_day ?d (fold sleep_step (night ?d ss) new_sleep_day)"
  obtain out where out: "aggregate_daily_sleep ss = Inr out"
    by (simp add: aggregate_daily_sleep_result)
  have d: "?d \<in> s_date ` set ss" using assms(1) by blast
  have mem: "?s \<in> set out"
    using aggregate_daily_sleep_member [OF out, of ?s] d by blast
  have n: "night ?d ss \<noteq> []" by (rule night_nonempty [OF d])
  have u: "u \<in> set (night ?d ss)" using assms(1) by (simp add: night_def)
  have lo: "Min (set (map start_of (night ?d ss))) \<le> start_of u"
    using u by (intro Min_le) auto
  have hi: "end_of u \<le> Max (set (map end_of (night ?d ss)))"
    using u by (intro Max_ge) auto
  show ?thesis
    using out mem u lo hi night_summary_fields(1-3) [OF n]
      stage_totals_without [OF assms(2), of ?d "night ?d ss"]
    by (intro exI [of _ out] exI [of _ ?s]) simp
qed

theorem unrecognized_session_bounds_witness:
  "aggregate_daily_sleep (ex_nap # ex_night)
     = Inr [\<lparr> ss_date = 738886, bedtime = ''21:15'', wake_time = ''06:30'',
              time_in_bed_hours = 0, total_sleep_hours = 15 / 2, awake_minutes = 0,
              core_sleep_hours = 3 / 2, deep_sleep_hours = 6, rem_sleep_hours = 0 \<rparr>]
   \<and> strftime_HM (Min (set (map start_of (night (s_date ex_nap) (ex_nap # ex_night)))))
       = strftime_HM (start_of ex_nap)
   \<and> stage_totals (format_day (s_date ex_nap)
        (fold sleep_step (filter (\<lambda>x. x \<noteq> ex_nap) (night (s_date ex_nap) (ex_nap # ex_night)))
           new_sleep_day))
       = (0, 15 / 2, 0, 3 / 2, 6, 0)"
proof -
  let ?s = "\<lparr> ss_date = 738886, bedtime = ''21:15'', wake_time = ''06:30'',
              time_in_bed_hours = 0, total_sleep_hours = 15 / 2, awake_minutes = 0,
              core_sleep_hours = 3 / 2, deep_sleep_hours = 6, rem_sleep_hours = 0 \<rparr>"
  have m: "ex_nap \<in> set (ex_nap # ex_night)" by simp
  have r: "\<not> recognized (s_type ex_nap)" by code_simp
  have a: "aggregate_daily_sleep (ex_nap # ex_night) = Inr [?s]" by code_simp
  have b: "strftime_HM (start_of ex_nap) = ''21:15''" by code_simp
  have t: "stage_totals ?s = (0, 15 / 2, 0, 3 / 2, 6, 0)" by (simp add: stage_totals_def)
  from unrecognized_session_bounds [OF m r] a
  have "bedtime ?s
          = strftime_HM (Min (set (map start_of (night (s_date ex_nap) (ex_nap # ex_night)))))"
    and "stage_totals ?s = stage_totals (format_day (s_date ex_nap)
        (fold sleep_step (filter (\<lambda>x. x \<noteq> ex_nap) (night (s_date ex_nap) (ex_nap # ex_night)))
           new_sleep_day))"
    by auto
  with a b t show ?thesis by simp
qed

lemma process_sleep_data_returns:
  assumes "cutoff_date now days = Inr c"
    and "\<forall>r \<in> set (findall xroot ''HKCategoryTypeIdentifierSleepAnalysis'').
           kept_sleep now days r \<longrightarrow> r_value r \<noteq> None"
  shows "process_sleep_data now xroot days
           = Inr (List.map_filter sleep_session_of
               (filter (kept_sleep now days)
                  (findall xroot ''HKCategoryTypeIdentifierSleepAnalysis'')))"
  using assms(2) by (simp add: process_sleep_data_char [OF assms(1)])

lemma kept_sleep_session:
  assumes "kept_sleep now days r" "r_value r = Some v"
  shows "\<exists>x. sleep_session_of r = Some x
           \<and> s_type x = str_remove ''HKCategoryValueSleepAnalysis'' v"
  using assms
  by (auto simp: kept_sleep_def sleep_session_of_def new_session_fields split: option.splits)

text \<open>
  C7 (as amended). When the extractor completes, every sleep record it keeps yields a
  session, whatever its label: the session's type is the record's value with the category
  prefix removed, verbatim (no seventh stage is substituted). In the nightly summaries the
  six stage totals are those of the sessions with a recognised label alone, so a session
  with any other label adds to none of them.
\<close>

theorem unknown_label_kept_verbatim:
  assumes "cutoff_date now days = Inr c"
    and "\<forall>r \<in> set (findall xroot ''HKCategoryTypeIdentifierSleepAnalysis'').
           kept_sleep now days r \<longrightarrow> r_value r \<noteq> None"
  shows "\<exists>sessions out. process_sleep_data now xroot days = Inr sessions
     \<and> aggregate_daily_sleep sessions = Inr out
     \<and> (\<forall>r \<in> set (findall xroot ''HKCategoryTypeIdentifierSleepAnalysis'').
          kept_sleep now days r \<longrightarrow>
            (\<exists>x \<in> set sessions. \<exists>v. r_value r = Some v \<and> sleep_session_of r = Some x
               \<and> s_type x = str_remove ''HKCategoryValueSleepAnalysis'' v))
     \<and> (\<forall>s \<in> set out.
          stage_totals s
            = stage_totals (format_day (ss_date s)
                (fold sleep_step
                   (filter (\<lambda>x. recognized (s_type x)) (night (ss_date s) sessions))
                   new_sleep_day)))"
proof -
  let ?rs = "findall xroot ''HKCategoryTypeIdentifierSleepAnalysis''"
  let ?sessions = "List.map_filter sleep_session_of (filter (kept_sleep now days) ?rs)"
  have p: "process_sleep_data now xroot days = Inr ?sessions"
    by (rule process_sleep_data_returns [OF assms])
  obtain out where out: "aggregate_daily_sleep ?sessions = Inr out"
    by (simp add: aggregate_daily_sleep_result)
  have kept: "\<forall>r \<in> set ?rs. kept_sleep now days r \<longrightarrow>
            (\<exists>x \<in> set ?sessions. \<exists>v. r_value r = Some v \<and> sleep_session_of r = Some x
               \<and> s_type x = str_remove ''HKCategoryValueSleepAnalysis'' v)"
  proof (intro ballI impI)
    fix r assume r: "r \<in> set ?rs" "kept_sleep now days r"
    with assms(2) obtain v where v: "r_value r = Some v" by auto
    from kept_sleep_session [OF r(2) v] obtain x where
      x: "sleep_session_of r = Some x" "s_type x = str_remove ''HKCategoryValueSleepAnalysis'' v"
      by blast
    have "x \<in> set ?sessions"
      unfolding set_map_filter_iff using r x(1) by auto
    with v x show "\<exists>x \<in> set ?sessions. \<exists>v. r_value r = Some v \<and> sleep_session_of r = Some x
               \<and> s_type x = str_remove ''HKCategoryValueSleepAnalysis'' v"
      by blast
  qed
  have totals: "\<forall>s \<in> set out.
          stage_totals s
            = stage_totals (format_day (ss_date s)
                (fold sleep_step
                   (filter (\<lambda>x. recognized (s_type x)) (night (ss_date s) ?sessions))
                   new_sleep_day))"
  proof
    fix s assume "s \<in> set out"
    from summary_night [OF out this]
    have s: "s = format_day (ss_date s)
                   (fold sleep_step (night (ss_date s) ?sessions) new_sleep_day)"
      by blast
    show "stage_totals s
            = stage_totals (format_day (ss_date s)
                (fold sleep_step
                   (filter (\<lambda>x. recognized (s_type x)) (night (ss_date s) ?sessions))
                   new_sleep_day))"
      by (subst s) (simp only: stage_totals_recognized)
  qed
  from p out kept totals show ?thesis by blast
qed

theorem unknown_label_kept_verbatim_witness:
  "process_sleep_data ex_now [ex_nap_record] 30 = Inr [ex_nap]
   \<and> s_type ex_nap = ''Napping''
   \<and> aggregate_daily_sleep [ex_nap]
       = Inr [\<lparr> ss_date = 738886, bedtime = ''21:15'', wake_time = ''21:45'',
                time_in_bed_hours = 0, total_sleep_hours = 0, awake_minutes = 0,
                core_sleep_hours = 0, deep_sleep_hours = 0, rem_sleep_hours = 0 \<rparr>]
   \<and> stage_totals (format_day 738886
        (fold sleep_step (filter (\<lambda>x. recognized (s_type x)) (night 738886 [ex_nap]))
           new_sleep_day))
       = (0, 0, 0, 0, 0, 0)"
proof -
  let ?s = "\<lparr> ss_date = 738886, bedtime = ''21:15'', wake_time = ''21:45'',
                time_in_bed_hours = 0, total_sleep_hours = 0, awake_minutes = 0,
                core_sleep_hours = 0, deep_sleep_hours = 0, rem_sleep_hours = 0 \<rparr>"
  have c: "cutoff_date ex_now 30 = Inr 63837892800000000" by code_simp
  have v: "\<forall>r \<in> set (findall [ex_nap_record] ''HKCategoryTypeIdentifierSleepAnalysis'').
           kept_sleep ex_now 30 r \<longrightarrow> r_value r \<noteq> None"
    by code_simp
  have p: "process_sleep_data ex_now [ex_nap_record] 30 = Inr [ex_nap]" by code_simp
  have t: "s_type ex_nap = ''Napping''" by code_simp
  have a: "aggregate_daily_sleep [ex_nap] = Inr [?s]" by code_simp
  have z: "stage_totals ?s = (0, 0, 0, 0, 0, 0)" by (simp add: stage_totals_def)
  from unknown_label_kept_verbatim [OF c v] p a
  have "stage_totals ?s = stage_totals (format_day (ss_date ?s)
        (fold sleep_step (filter (\<lambda>x. recognized (s_type x)) (night (ss_date ?s) [ex_nap]))
           new_sleep_day))"
    by auto
  with p t a z show ?thesis by simp
qed

text \<open>
  The session extracted from a record labelled \<^verbatim>\<open>HKCategoryValueSleepAnalysisNapping\<close> has
  the type \<^verbatim>\<open>Napping\<close>, not \<^verbatim>\<open>Unknown\<close>.
\<close>

theorem unknown_label_counterexample:
  "process_sleep_data ex_now [ex_nap_record] 30
     = Inr [\<lparr> s_date = 738886, s_start_time = 63839740500, s_end_time = 63839742300,
              s_duration_minutes = 30, s_duration_hours = 1 / 2, s_type = ''Napping'',
              s_source = ''Unknown'' \<rparr>]
   \<and> r_value ex_nap_record = Some ''HKCategoryValueSleepAnalysisNapping''
   \<and> \<not> recognized ''Napping''
   \<and> ''Napping'' \<noteq> ''Unknown''"
  by code_simp








subsection \<open>The daily cardiac aggregator\<close>

lemma dated_resting:
  "dated d ((dated d e)\<lparr>d_resting_hr := x\<rparr>) = (dated d e)\<lparr>d_resting_hr := x\<rparr>"
  by (simp add: dated_def)

lemma dated_hrv:
  "dated d ((dated d e)\<lparr>d_hrv := x\<rparr>) = (dated d e)\<lparr>d_hrv := x\<rparr>"
  by (simp add: dated_def)

lemma resting_loop_lookup:
  "map_of (resting_loop ms al) d
     = (if d \<in> m_date ` set ms
        then Some ((dated d (dd_get new_heart_day d al))
                     \<lparr>d_resting_hr := Some (last_value d ms)\<rparr>)
        else map_of al d)"
proof (induction ms arbitrary: al)
  case Nil
  show ?case by simp
next
  case (Cons m ms)
  let ?e = "(dated (m_date m) (dd_get new_heart_day (m_date m) al))
              \<lparr>d_resting_hr := Some (m_value m)\<rparr>"
  let ?al = "AList.update (m_date m) ?e al"
  have step: "resting_loop (m # ms) al = resting_loop ms ?al"
    by (simp add: Let_def dated_def)
  have ih: "map_of (resting_loop ms ?al) d
     = (if d \<in> m_date ` set ms
        then Some ((dated d (dd_get new_heart_day d ?al))
                     \<lparr>d_resting_hr := Some (last_value d ms)\<rparr>)
        else map_of ?al d)"
    by (rule Cons.IH)
  show ?case
  proof (cases "d = m_date m")
    case False
    then have "last_value d (m # ms) = last_value d ms"
      by (simp add: last_value_def)
    with False show ?thesis
      unfolding step ih by (auto simp: dd_get_update update_conv')
  next
    case True
    show ?thesis
    proof (cases "d \<in> m_date ` set ms")
      case False
      then have "filter (\<lambda>x. m_date x = d) ms = []"
        by (auto simp: filter_empty_conv)
      then have "last_value d (m # ms) = m_value m"
        using True by (simp add: last_value_def)
      with True False show ?thesis
        unfolding step ih by (simp add: update_conv')
    next
      case yes: True
      then have "filter (\<lambda>x. m_date x = d) ms \<noteq> []"
        by (auto simp: filter_empty_conv)
      then have "last_value d (m # ms) = last_value d ms"
        by (simp add: last_value_def)
      with True yes show ?thesis
        unfolding step ih by (simp add: dd_get_update dated_resting dated_hrv)
    qed
  qed
qed

lemma hrv_loop_lookup:
  "map_of (hrv_loop ms al) d
     = (if d \<in> m_date ` set ms
        then Some ((dated d (dd_get new_heart_day d al))\<lparr>d_hrv := Some (last_value d ms)\<rparr>)
        else map_of al d)"
proof (induction ms arbitrary: al)
  case Nil
  show ?case by simp
next
  case (Cons m ms)
  let ?e = "(dated (m_date m) (dd_get new_heart_day (m_date m) al))\<lparr>d_hrv := Some (m_value m)\<rparr>"
  let ?al = "AList.update (m_date m) ?e al"
  have step: "hrv_loop (m # ms) al = hrv_loop ms ?al"
    by (simp add: Let_def dated_def)
  have ih: "map_of (hrv_loop ms ?al) d
     = (if d \<in> m_date ` set ms
        then Some ((dated d (dd_get new_heart_day d ?al))\<lparr>d_hrv := Some (last_value d ms)\<rparr>)
        else map_of ?al d)"
    by (rule Cons.IH)
  show ?case
  proof (cases "d = m_date m")
    case False
    then have "last_value d (m # ms) = last_value d ms"
      by (simp add: last_value_def)
    with False show ?thesis
      unfolding step ih by (auto simp: dd_get_update update_conv')
  next
    case True
    show ?thesis
    proof (cases "d \<in> m_date ` set ms")
      case False
      then have "filter (\<lambda>x. m_date x = d) ms = []"
        by (auto simp: filter_empty_conv)
      then have "last_value d (m # ms) = m_value m"
        using True by (simp add: last_value_def)
      with True False show ?thesis
        unfolding step ih by (simp add: update_conv')
    next
      case yes: True
      then have "filter (\<lambda>x. m_date x = d) ms \<noteq> []"
        by (auto simp: filter_empty_conv)
      then have "last_value d (m # ms) = last_value d ms"
        by (simp add: last_value_def)
      with True yes show ?thesis
        unfolding step ih by (simp add: dd_get_update dated_resting dated_hrv)
    qed
  qed
qed

lemma resting_loop_distinct:
  "distinct (map fst al) \<Longrightarrow> distinct (map fst (resting_loop ms al))"
  by (induction ms arbitrary: al) (auto simp: distinct_update Let_def)

lemma hrv_loop_distinct:
  "distinct (map fst al) \<Longrightarrow> distinct (map fst (hrv_loop ms al))"
  by (induction ms arbitrary: al) (auto simp: distinct_update Let_def)

lemma hr_loop_ok:
  assumes "\<forall>k e. map_of al k = Some e \<longrightarrow> d_date e = Some k \<and> d_hr_values e \<noteq> None"
  shows "\<exists>al'. hr_loop ms al = Inr al'
     \<and> (\<forall>k e. map_of al' k = Some e \<longrightarrow> d_date e = Some k \<and> d_hr_values e \<noteq> None)
     \<and> (distinct (map fst al) \<longrightarrow> distinct (map fst al'))"
  using assms
proof (induction ms arbitrary: al)
  case Nil
  then show ?case by simp
next
  case (Cons m ms)
  let ?d = "m_date m"
  let ?e = "dd_get new_heart_day ?d al"
  let ?e1 = "if d_date ?e = None then ?e\<lparr>d_date := Some ?d, d_hr_values := Some []\<rparr> else ?e"
  have e1: "d_date ?e1 = Some ?d \<and> d_hr_values ?e1 \<noteq> None"
  proof (cases "map_of al ?d")
    case None
    then show ?thesis by (simp add: dd_get_def new_heart_day_def)
  next
    case (Some e)
    with Cons.prems show ?thesis by (simp add: dd_get_def)
  qed
  then obtain vs where vs: "d_hr_values ?e1 = Some vs" by blast
  let ?al = "AList.update ?d (?e1\<lparr>d_hr_values := Some (vs @ [m_value m])\<rparr>) al"
  have step: "hr_loop (m # ms) al = hr_loop ms ?al"
    using vs by (simp add: Let_def)
  have inv: "\<forall>k e. map_of ?al k = Some e \<longrightarrow> d_date e = Some k \<and> d_hr_values e \<noteq> None"
    using Cons.prems e1 by (auto simp: update_conv' split: if_splits)
  from Cons.IH [OF inv] obtain al' where
    a: "hr_loop ms ?al = Inr al'"
    and b: "\<forall>k e. map_of al' k = Some e \<longrightarrow> d_date e = Some k \<and> d_hr_values e \<noteq> None"
    and c: "distinct (map fst ?al) \<longrightarrow> distinct (map fst al')"
    by blast
  have c': "distinct (map fst al) \<longrightarrow> distinct (map fst al')"
    using c distinct_update [of al] by blast
  show ?case
    unfolding step using a b c' by blast
qed

lemma calc_stats_date: "d_date (calc_stats e) = d_date e"
  by (simp add: calc_stats_def split: option.splits list.splits)

lemma map_of_calc_stats:
  "map_of (map (\<lambda>(date, e). (date, calc_stats e)) al) k = map_option calc_stats (map_of al k)"
  by (induction al) auto

lemma dated_date:
  assumes "\<forall>e. map_of al d = Some e \<longrightarrow> d_date e = Some d"
  shows "d_date (dated d (dd_get new_heart_day d al)) = Some d"
  using assms by (cases "map_of al d") (simp_all add: dated_def dd_get_def new_heart_day_def)

lemma resting_loop_dated:
  assumes "\<forall>k e. map_of al k = Some e \<longrightarrow> d_date e = Some k"
  shows "\<forall>k e. map_of (resting_loop ms al) k = Some e \<longrightarrow> d_date e = Some k"
proof (intro allI impI)
  fix k e assume "map_of (resting_loop ms al) k = Some e"
  then show "d_date e = Some k"
    using assms dated_date [of al k]
    by (auto simp: resting_loop_lookup split: if_splits)
qed

lemma hrv_loop_dated:
  assumes "\<forall>k e. map_of al k = Some e \<longrightarrow> d_date e = Some k"
  shows "\<forall>k e. map_of (hrv_loop ms al) k = Some e \<longrightarrow> d_date e = Some k"
proof (intro allI impI)
  fix k e assume "map_of (hrv_loop ms al) k = Some e"
  then show "d_date e = Some k"
    using assms dated_date [of al k]
    by (auto simp: hrv_loop_lookup split: if_splits)
qed

lemma insort_key_cong:
  "f x = g x \<Longrightarrow> \<forall>y \<in> set xs. f y = g y \<Longrightarrow> insort_key f x xs = insort_key g x xs"
  by (induction xs) auto

lemma sort_key_cong:
  "\<forall>x \<in> set xs. f x = g x \<Longrightarrow> sort_key f xs = sort_key g xs"
proof (induction xs)
  case Nil
  show ?case by simp
next
  case (Cons x xs)
  then have "sort_key f xs = sort_key g xs" by simp
  moreover have "insort_key f x (sort_key g xs) = insort_key g x (sort_key g xs)"
    using Cons.prems by (intro insort_key_cong) simp_all
  ultimately show ?case by simp
qed

lemma heart_summaries_ok:
  "\<forall>e \<in> set es. d_date e \<noteq> None \<Longrightarrow>
     heart_summaries es = Inr (map (\<lambda>e. summary_of (the (d_date e)) e) es)"
  by (induction es) (auto simp: summary_of_def)

lemma heart_result:
  "\<exists>d1. hr_loop heart_rates [] = Inr d1
     \<and> distinct (map fst (hrv_loop hrvs (resting_loop resting_hrs
                   (map (\<lambda>(date, e). (date, calc_stats e)) d1))))
     \<and> (\<forall>k e. map_of (hrv_loop hrvs (resting_loop resting_hrs
                   (map (\<lambda>(date, e). (date, calc_stats e)) d1))) k = Some e
             \<longrightarrow> d_date e = Some k)
     \<and> aggregate_daily_heart_data today heart_rates resting_hrs hrvs
         = Inr (map (\<lambda>e. summary_of (the (d_date e)) e)
             (sort_key (\<lambda>e. the (d_date e))
                (map snd (hrv_loop hrvs (resting_loop resting_hrs
                   (map (\<lambda>(date, e). (date, calc_stats e)) d1))))))"
proof -
  from hr_loop_ok [of "[]" heart_rates] obtain d1 where
    d1: "hr_loop heart_rates [] = Inr d1"
    and inv1: "\<forall>k e. map_of d1 k = Some e \<longrightarrow> d_date e = Some k \<and> d_hr_values e \<noteq> None"
    and dist1: "distinct (map fst d1)"
    by auto
  let ?d2 = "map (\<lambda>(date, e). (date, calc_stats e)) d1"
  let ?d4 = "hrv_loop hrvs (resting_loop resting_hrs ?d2)"
  have dist2: "distinct (map fst ?d2)"
    using dist1 by (simp add: o_def split_def)
  have inv2: "\<forall>k e. map_of ?d2 k = Some e \<longrightarrow> d_date e = Some k"
    using inv1 by (auto simp: map_of_calc_stats calc_stats_date)
  have dist4: "distinct (map fst ?d4)"
    by (intro hrv_loop_distinct resting_loop_distinct dist2)
  have inv4: "\<forall>k e. map_of ?d4 k = Some e \<longrightarrow> d_date e = Some k"
    by (intro hrv_loop_dated resting_loop_dated inv2)
  have all: "\<forall>e \<in> set (map snd ?d4). d_date e \<noteq> None"
  proof
    fix e assume "e \<in> set (map snd ?d4)"
    then obtain k where "(k, e) \<in> set ?d4" by auto
    with dist4 have "map_of ?d4 k = Some e" by simp
    with inv4 show "d_date e \<noteq> None" by auto
  qed
  let ?key = "\<lambda>x. case d_date x of Some d \<Rightarrow> d | None \<Rightarrow> today"
  have key: "sort_key ?key (map snd ?d4) = sort_key (\<lambda>e. the (d_date e)) (map snd ?d4)"
    using all by (intro sort_key_cong) auto
  have sorted_all: "\<forall>e \<in> set (sort_key (\<lambda>e. the (d_date e)) (map snd ?d4)). d_date e \<noteq> None"
    using all by (simp only: set_sort)
  have agg: "aggregate_daily_heart_data today heart_rates resting_hrs hrvs
         = heart_summaries (sort_key ?key (map snd ?d4))"
    by (simp only: aggregate_daily_heart_data_def d1 Let_def sum.case)
  have "aggregate_daily_heart_data today heart_rates resting_hrs hrvs
         = Inr (map (\<lambda>e. summary_of (the (d_date e)) e)
             (sort_key (\<lambda>e. the (d_date e)) (map snd ?d4)))"
    unfolding agg key by (rule heart_summaries_ok [OF sorted_all])
  with d1 dist4 inv4 show ?thesis by blast
qed

subsection \<open>The cardiac summaries and the run\<close>

lemma heart_members:
  assumes "distinct (map fst al)" "\<forall>k e. map_of al k = Some e \<longrightarrow> d_date e = Some k"
  shows "s \<in> set (map (\<lambda>e. summary_of (the (d_date e)) e) (sort_key f (map snd al)))
     \<longleftrightarrow> (\<exists>k e. map_of al k = Some e \<and> s = summary_of k e)"
proof
  assume "s \<in> set (map (\<lambda>e. summary_of (the (d_date e)) e) (sort_key f (map snd al)))"
  then obtain k e where ke: "(k, e) \<in> set al" and s: "s = summary_of (the (d_date e)) e"
    by auto
  from ke assms(1) have m: "map_of al k = Some e" by simp
  with assms(2) have "d_date e = Some k" by blast
  with m s show "\<exists>k e. map_of al k = Some e \<and> s = summary_of k e" by auto
next
  assume "\<exists>k e. map_of al k = Some e \<and> s = summary_of k e"
  then obtain k e where m: "map_of al k = Some e" and s: "s = summary_of k e" by blast
  from m have "(k, e) \<in> set al" by (rule map_of_SomeD)
  then have "e \<in> set (sort_key f (map snd al))" by force
  moreover from m assms(2) have "d_date e = Some k" by blast
  ultimately show "s \<in> set (map (\<lambda>e. summary_of (the (d_date e)) e) (sort_key f (map snd al)))"
    using s by force
qed

lemma hrv_loop_resting:
  assumes "map_of al d = Some e"
  shows "\<exists>e'. map_of (hrv_loop ms al) d = Some e' \<and> d_resting_hr e' = d_resting_hr e"
  using assms by (simp add: hrv_loop_lookup dd_get_def dated_def)

text \<open>
  C5. The cardiac aggregator returns, for every date with at least one resting heart rate
  measurement, exactly one summary, whose \<open>resting_hr\<close> is the value of the last such
  measurement of that date in input order; and likewise for HRV and \<open>hrv\<close>. With the
  values 55 then 58 on one date, \<open>resting_hr\<close> is 58.
\<close>

theorem last_value_wins:
  "\<exists>out. aggregate_daily_heart_data today heart_rates resting_hrs hrvs = Inr out
     \<and> (\<forall>d \<in> m_date ` set resting_hrs.
           \<exists>s \<in> set out. h_date s = d \<and> resting_hr s = Some (last_value d resting_hrs)
              \<and> (\<forall>s' \<in> set out. h_date s' = d \<longrightarrow> s' = s))
     \<and> (\<forall>d \<in> m_date ` set hrvs.
           \<exists>s \<in> set out. h_date s = d \<and> hrv s = Some (last_value d hrvs)
              \<and> (\<forall>s' \<in> set out. h_date s' = d \<longrightarrow> s' = s))"
proof -
  from heart_result [of heart_rates hrvs resting_hrs today] obtain d1 where
    dist: "distinct (map fst (hrv_loop hrvs (resting_loop resting_hrs
                   (map (\<lambda>(date, e). (date, calc_stats e)) d1))))"
    and inv: "\<forall>k e. map_of (hrv_loop hrvs (resting_loop resting_hrs
                   (map (\<lambda>(date, e). (date, calc_stats e)) d1))) k = Some e
             \<longrightarrow> d_date e = Some k"
    and out: "aggregate_daily_heart_data today heart_rates resting_hrs hrvs
         = Inr (map (\<lambda>e. summary_of (the (d_date e)) e)
             (sort_key (\<lambda>e. the (d_date e))
                (map snd (hrv_loop hrvs (resting_loop resting_hrs
                   (map (\<lambda>(date, e). (date, calc_stats e)) d1))))))"
    by blast
  let ?d3 = "resting_loop resting_hrs (map (\<lambda>(date, e). (date, calc_stats e)) d1)"
  let ?d4 = "hrv_loop hrvs ?d3"
  let ?out = "map (\<lambda>e. summary_of (the (d_date e)) e)
             (sort_key (\<lambda>e. the (d_date e)) (map snd ?d4))"
  note mem = heart_members [OF dist inv, of _ "\<lambda>e. the (d_date e)"]
  have uniq: "\<And>d e s'. map_of ?d4 d = Some e \<Longrightarrow> s' \<in> set ?out \<Longrightarrow> h_date s' = d
                \<Longrightarrow> s' = summary_of d e"
  proof -
    fix d e s' assume m: "map_of ?d4 d = Some e" and s': "s' \<in> set ?out" and h: "h_date s' = d"
    from s' obtain k' e' where k': "map_of ?d4 k' = Some e'" "s' = summary_of k' e'"
      unfolding mem by blast
    with h have "k' = d" by (simp add: summary_of_def)
    with k' m show "s' = summary_of d e" by simp
  qed
  have R: "\<forall>d \<in> m_date ` set resting_hrs.
           \<exists>s \<in> set ?out. h_date s = d \<and> resting_hr s = Some (last_value d resting_hrs)
              \<and> (\<forall>s' \<in> set ?out. h_date s' = d \<longrightarrow> s' = s)"
  proof
    fix d assume d: "d \<in> m_date ` set resting_hrs"
    then obtain e3 where e3: "map_of ?d3 d = Some e3"
        "d_resting_hr e3 = Some (last_value d resting_hrs)"
      by (simp add: resting_loop_lookup)
    from hrv_loop_resting [OF e3(1), of hrvs] e3(2) obtain e where
      e: "map_of ?d4 d = Some e" "d_resting_hr e = Some (last_value d resting_hrs)"
      by auto
    have "summary_of d e \<in> set ?out" unfolding mem using e(1) by blast
    moreover have "h_date (summary_of d e) = d"
      "resting_hr (summary_of d e) = Some (last_value d resting_hrs)"
      using e(2) by (simp_all add: summary_of_def)
    moreover have "\<forall>s' \<in> set ?out. h_date s' = d \<longrightarrow> s' = summary_of d e"
      using uniq [OF e(1)] by blast
    ultimately show "\<exists>s \<in> set ?out. h_date s = d
              \<and> resting_hr s = Some (last_value d resting_hrs)
              \<and> (\<forall>s' \<in> set ?out. h_date s' = d \<longrightarrow> s' = s)"
      by blast
  qed
  have H: "\<forall>d \<in> m_date ` set hrvs.
           \<exists>s \<in> set ?out. h_date s = d \<and> hrv s = Some (last_value d hrvs)
              \<and> (\<forall>s' \<in> set ?out. h_date s' = d \<longrightarrow> s' = s)"
  proof
    fix d assume d: "d \<in> m_date ` set hrvs"
    then obtain e where e: "map_of ?d4 d = Some e" "d_hrv e = Some (last_value d hrvs)"
      by (simp add: hrv_loop_lookup)
    have "summary_of d e \<in> set ?out" unfolding mem using e(1) by blast
    moreover have "h_date (summary_of d e) = d"
      "hrv (summary_of d e) = Some (last_value d hrvs)"
      using e(2) by (simp_all add: summary_of_def)
    moreover have "\<forall>s' \<in> set ?out. h_date s' = d \<longrightarrow> s' = summary_of d e"
      using uniq [OF e(1)] by blast
    ultimately show "\<exists>s \<in> set ?out. h_date s = d \<and> hrv s = Some (last_value d hrvs)
              \<and> (\<forall>s' \<in> set ?out. h_date s' = d \<longrightarrow> s' = s)"
      by blast
  qed
  from out R H show ?thesis by blast
qed

theorem last_value_wins_witness:
  "aggregate_daily_heart_data 0 [] ex_resting ex_hrvs
     = Inr [\<lparr> h_date = 738888, hr_avg = None, hr_min = None, hr_max = None, hr_count = 0,
              resting_hr = Some 58, hrv = Some 47 \<rparr>,
            \<lparr> h_date = 738889, hr_avg = None, hr_min = None, hr_max = None, hr_count = 0,
              resting_hr = None, hrv = Some 39 \<rparr>]
   \<and> map m_value ex_resting = [55, 58]
   \<and> last_value 738888 ex_resting = 58
   \<and> last_value 738888 ex_hrvs = 47"
proof -
  let ?a = "\<lparr> h_date = 738888, hr_avg = None, hr_min = None, hr_max = None, hr_count = 0,
              resting_hr = Some 58, hrv = Some 47 \<rparr>"
  let ?b = "\<lparr> h_date = 738889, hr_avg = None, hr_min = None, hr_max = None, hr_count = 0,
              resting_hr = None, hrv = Some (39::rat) \<rparr>"
  have a: "aggregate_daily_heart_data 0 [] ex_resting ex_hrvs = Inr [?a, ?b]" by code_simp
  have v: "map m_value ex_resting = [55, 58]" by code_simp
  have d1: "738888 \<in> m_date ` set ex_resting" by code_simp
  have d2: "738888 \<in> m_date ` set ex_hrvs" by code_simp
  from last_value_wins [of 0 "[]" ex_resting ex_hrvs] obtain out where
    o: "aggregate_daily_heart_data 0 [] ex_resting ex_hrvs = Inr out"
    and R: "\<forall>d \<in> m_date ` set ex_resting.
           \<exists>s \<in> set out. h_date s = d \<and> resting_hr s = Some (last_value d ex_resting)
              \<and> (\<forall>s' \<in> set out. h_date s' = d \<longrightarrow> s' = s)"
    and H: "\<forall>d \<in> m_date ` set ex_hrvs.
           \<exists>s \<in> set out. h_date s = d \<and> hrv s = Some (last_value d ex_hrvs)
              \<and> (\<forall>s' \<in> set out. h_date s' = d \<longrightarrow> s' = s)"
    by blast
  from o a have out: "out = [?a, ?b]" by simp
  from R d1 obtain s where "s \<in> set out" "h_date s = 738888"
      "resting_hr s = Some (last_value 738888 ex_resting)"
    by blast
  then have r: "last_value 738888 ex_resting = 58"
    unfolding out by auto
  from H d2 obtain s where "s \<in> set out" "h_date s = 738888"
      "hrv s = Some (last_value 738888 ex_hrvs)"
    by blast
  then have h: "last_value 738888 ex_hrvs = 47"
    unfolding out by auto
  from a v r h show ?thesis by blast
qed

lemma aggregate_today_irrelevant:
  "aggregate_daily_heart_data t1 heart_rates resting_hrs hrvs
     = aggregate_daily_heart_data t2 heart_rates resting_hrs hrvs"
  using heart_result [of heart_rates hrvs resting_hrs t1]
    heart_result [of heart_rates hrvs resting_hrs t2]
  by auto

text \<open>
  C9 (as amended). The run has no injected reference time: each of the four extractors
  reads the wall clock itself. The rows are a function of the document, the look-back and
  those four readings: two runs on the same document and look-back whose first four clock
  readings agree produce the same rows, whatever the clock shows afterwards.
\<close>

theorem run_reads_four_clocks:
  assumes "\<forall>i<4. clock i = clock' i"
  shows "main_core flt clock xroot days = main_core flt clock' xroot days"
proof -
  have c: "clock 0 = clock' 0" "clock 1 = clock' 1" "clock 2 = clock' 2" "clock 3 = clock' 3"
    using assms by simp_all
  show ?thesis
    unfolding main_core_def c
    by (simp only: aggregate_today_irrelevant [of "date_of (clock 4)" _ _ _ "date_of (clock' 4)"])
qed

theorem run_reads_four_clocks_witness:
  "main_core float_decimal ex_clock_fixed ex_export 30
     = main_core float_decimal ex_clock_late ex_export 30
   \<and> ex_clock_fixed 4 \<noteq> ex_clock_late 4"
proof -
  have h: "\<forall>i<4. ex_clock_fixed i = ex_clock_late i"
    by (simp add: ex_clock_fixed_def ex_clock_late_def)
  have n: "ex_clock_fixed 4 \<noteq> ex_clock_late 4"
    by (simp add: ex_clock_fixed_def ex_clock_late_def us_per_day_def us_per_second_def)
  from run_reads_four_clocks [OF h, of float_decimal ex_export 30] n show ?thesis by blast
qed

text \<open>
  Two runs that start at the same instant on the same two records, one starting exactly
  thirty days earlier in each stream: when the clock stands still both records are kept,
  when it advances by a second between the extractors the heart rate record falls before
  its extractor's cutoff and the row loses its cardiac fields.
\<close>

theorem single_reference_time_counterexample:
  "ex_clock_fixed 0 = ex_clock_ticking 0
   \<and> main_core float_decimal ex_clock_fixed ex_boundary 30
       = Inr [\<lparr> row_date = 738865, row_bedtime = PyStr ''12:00'',
                row_wake_time = PyStr ''12:30'', row_time_in_bed_hours = PyFloat 0,
                row_total_sleep_hours = PyFloat (1 / 2), row_awake_minutes = PyFloat 0,
                row_core_sleep_hours = PyFloat (1 / 2), row_deep_sleep_hours = PyFloat 0,
                row_rem_sleep_hours = PyFloat 0, row_hr_avg = PyFloat 60,
                row_hr_min = PyFloat 60, row_hr_max = PyFloat 60,
                row_hr_measurements = PyInt 1, row_resting_hr = PyNone,
                row_hrv_sdnn = PyNone \<rparr>]
   \<and> main_core float_decimal ex_clock_ticking ex_boundary 30
       = Inr [\<lparr> row_date = 738865, row_bedtime = PyStr ''12:00'',
                row_wake_time = PyStr ''12:30'', row_time_in_bed_hours = PyFloat 0,
                row_total_sleep_hours = PyFloat (1 / 2), row_awake_minutes = PyFloat 0,
                row_core_sleep_hours = PyFloat (1 / 2), row_deep_sleep_hours = PyFloat 0,
                row_rem_sleep_hours = PyFloat 0, row_hr_avg = PyStr [],
                row_hr_min = PyStr [], row_hr_max = PyStr [],
                row_hr_measurements = PyStr [], row_resting_hr = PyStr [],
                row_hrv_sdnn = PyStr [] \<rparr>]"
proof -
  let ?x = "\<lparr> s_date = 738865, s_start_time = 63837892800, s_end_time = 63837894600,
             s_duration_minutes = 30, s_duration_hours = 1 / 2, s_type = ''Core'',
             s_source = ''Unknown'' \<rparr>"
  let ?m = "\<lparr> m_datetime = 63837892800, m_date = 738865, m_value = 60, m_unit = None,
             m_source = ''Unknown'' \<rparr>"
  let ?s = "\<lparr> ss_date = 738865, bedtime = ''12:00'', wake_time = ''12:30'',
             time_in_bed_hours = 0, total_sleep_hours = 1 / 2, awake_minutes = 0,
             core_sleep_hours = 1 / 2, deep_sleep_hours = 0, rem_sleep_hours = 0 \<rparr>"
  let ?h = "\<lparr> h_date = 738865, hr_avg = Some 60, hr_min = Some 60, hr_max = Some 60,
             hr_count = 1, resting_hr = None, hrv = None \<rparr>"
  have c0: "ex_clock_fixed 0 = ex_clock_ticking 0"
    by (simp add: ex_clock_fixed_def ex_clock_ticking_def)
  have f1: "process_sleep_data (ex_clock_fixed 0) ex_boundary 30 = Inr [?x]" by code_simp
  have f2: "process_heart_rate_data float_decimal (ex_clock_fixed 1) ex_boundary 30 = Inr [?m]"
    by code_simp
  have f3: "process_resting_heart_rate float_decimal (ex_clock_fixed 2) ex_boundary 30 = Inr []"
    by code_simp
  have f4: "process_hrv_data float_decimal (ex_clock_fixed 3) ex_boundary 30 = Inr []"
    by code_simp
  have t1: "process_sleep_data (ex_clock_ticking 0) ex_boundary 30 = Inr [?x]" by code_simp
  have t2: "process_heart_rate_data float_decimal (ex_clock_ticking 1) ex_boundary 30 = Inr []"
    by code_simp
  have t3: "process_resting_heart_rate float_decimal (ex_clock_ticking 2) ex_boundary 30 = Inr []"
    by code_simp
  have t4: "process_hrv_data float_decimal (ex_clock_ticking 3) ex_boundary 30 = Inr []"
    by code_simp
  have a: "aggregate_daily_sleep [?x] = Inr [?s]" by code_simp
  have h1: "aggregate_daily_heart_data (date_of (ex_clock_fixed 4)) [?m] [] [] = Inr [?h]"
    by code_simp
  have h0: "aggregate_daily_heart_data (date_of (ex_clock_ticking 4)) [] [] [] = Inr []"
    by code_simp
  have g1: "generate_spreadsheet [?s] [?h] = [combined 738865 (Some ?s) (Some ?h)]"
    by (simp add: generate_spreadsheet_def by_date_def Let_def)
  have g0: "generate_spreadsheet [?s] [] = [combined 738865 (Some ?s) None]"
    by (simp add: generate_spreadsheet_def by_date_def Let_def)
  have r1: "main_core float_decimal ex_clock_fixed ex_boundary 30
              = Inr [combined 738865 (Some ?s) (Some ?h)]"
    by (simp only: main_core_def f1 f2 f3 f4 a h1 g1 sum.case)
  have r0: "main_core float_decimal ex_clock_ticking ex_boundary 30
              = Inr [combined 738865 (Some ?s) None]"
    by (simp only: main_core_def t1 t2 t3 t4 a h0 g0 sum.case)
  show ?thesis
    unfolding r1 r0
    by (simp add: c0 combined_def empty_marker_def float_or_none_def)
qed

end
